theory Spec2Isabelle
  imports Complex_Main "HOL-Library.Log_Nat"
begin

section \<open>The transcription pipeline of \<^verbatim>\<open>transcribe_standalone.py\<close>\<close>

text \<open>
  A shallow embedding of class \<^verbatim>\<open>Audio2TextTranscriber\<close>. Python exceptions are values
  (\<open>Inl\<close> of a sum), the file system and the lazily loaded models are passed explicitly,
  and every call into an external library (soundfile, librosa, ffmpeg, the two speech
  engines, pyannote, \<^verbatim>\<open>json.dumps\<close>, \<^verbatim>\<open>open\<close>) is a field of an environment
  record, so that a theorem holds whatever those libraries answer. Calls to the logger
  are not modelled.
\<close>

subsection \<open>Python floats\<close>

text \<open>
  Times are Python floats, that is IEEE 754 double precision numbers. A finite double
  is modelled by the real number it denotes, and every arithmetic operation on doubles
  returns the double nearest to the exact result: \<open>fl\<close> rounds a real to the nearest
  double, ties to the even neighbour. With \<open>2^e \<le> |x| < 2^(e+1)\<close> the doubles around \<open>x\<close>
  are the multiples of \<open>2^(e-52)\<close> (of \<open>2^(-1074)\<close> for the subnormal numbers, where
  \<open>e < -1022\<close>). Comparisons of doubles are exact. Infinities, NaN and the sign of zero
  are not modelled: no operation below yields a result larger in magnitude than a
  thousand times its operand.
\<close>

type_synonym seconds = real

text \<open>Rounding to the nearest integer, ties to the even one.\<close>

definition rne :: "real \<Rightarrow> int" where
  "rne y = (let f = \<lfloor>y\<rfloor>; r = y - of_int f
            in if r < 1 / 2 then f else if 1 / 2 < r then f + 1 else if even f then f else f + 1)"

text \<open>
  The binary exponent \<open>\<lfloor>log\<^sub>2 x\<rfloor>\<close> of a positive real, computed from the bit length of
  an integer so that it can be evaluated.
\<close>

definition ilog2 :: "real \<Rightarrow> int" where
  "ilog2 x = (if 1 \<le> x then bitlen \<lfloor>x\<rfloor> - 1 else - bitlen (\<lceil>1 / x\<rceil> - 1))"

text \<open>The spacing of the doubles around \<open>x\<close>.\<close>

definition quantum :: "real \<Rightarrow> real" where
  "quantum x = 2 powi (max (ilog2 \<bar>x\<bar>) (- 1022) - 52)"

definition fl :: "real \<Rightarrow> real" where
  "fl x = (if x = 0 then 0 else quantum x * of_int (rne (x / quantum x)))"

text \<open>
  The C function \<^verbatim>\<open>fmod\<close> is exact: \<open>x\<close> minus \<open>y\<close> times the quotient truncated toward
  zero. CPython's \<^verbatim>\<open>float_rem\<close> (the operator \<^verbatim>\<open>%\<close>) calls it and adds the divisor when
  the remainder is not zero and its sign differs from the divisor's; that addition is a
  float operation.
\<close>

definition fmod :: "real \<Rightarrow> real \<Rightarrow> real" where
  "fmod x y = x - y * of_int (if x / y < 0 then \<lceil>x / y\<rceil> else \<lfloor>x / y\<rfloor>)"

definition py_mod :: "real \<Rightarrow> real \<Rightarrow> real" where
  "py_mod vx wx =
     (let m = fmod vx wx
      in if m \<noteq> 0 \<and> ((wx < 0) \<noteq> (m < 0)) then fl (m + wx) else m)"

text \<open>
  CPython's \<^verbatim>\<open>_float_div_mod\<close> (the operator \<^verbatim>\<open>//\<close>): the quotient of \<open>vx\<close> minus the
  remainder by \<open>wx\<close>, one less when the remainder was adjusted, then snapped to the
  nearest integral value. Every step is a float operation. The divisors are the
  constants 3600 and 60 here, so \<^verbatim>\<open>ZeroDivisionError\<close> does not arise.
\<close>

definition py_floordiv :: "real \<Rightarrow> real \<Rightarrow> real" where
  "py_floordiv vx wx =
     (let m = fmod vx wx;
          d = fl (fl (vx - m) / wx);
          quotient = (if m \<noteq> 0 \<and> ((wx < 0) \<noteq> (m < 0)) then fl (d - 1) else d)
      in if quotient \<noteq> 0
         then (let floordiv = of_int \<lfloor>quotient\<rfloor>
               in if 1 / 2 < fl (quotient - floordiv) then fl (floordiv + 1) else floordiv)
         else 0)"

text \<open>\<^verbatim>\<open>int(x)\<close> truncates toward zero.\<close>

definition py_int :: "real \<Rightarrow> int" where
  "py_int x = (if x < 0 then \<lceil>x\<rceil> else \<lfloor>x\<rfloor>)"

subsection \<open>Format specifiers\<close>

definition digit_char :: "nat \<Rightarrow> char" where
  "digit_char d = ''0123456789'' ! (d mod 10)"

text \<open>\<^verbatim>\<open>str(n)\<close> for a natural number: its decimal digits.\<close>

fun str_nat :: "nat \<Rightarrow> string" where
  "str_nat n = (if n < 10 then [digit_char n] else str_nat (n div 10) @ [digit_char (n mod 10)])"

declare str_nat.simps [simp del]

definition zero_pad :: "nat \<Rightarrow> string \<Rightarrow> string" where
  "zero_pad w s = replicate (w - length s) CHR ''0'' @ s"

text \<open>
  The format specifier \<^verbatim>\<open>{i:0wd}\<close>: the decimal digits of \<open>i\<close>, filled with zeros on
  the left up to width \<open>w\<close> (the sign, if any, counts and comes first). A number with
  more than \<open>w\<close> digits is printed in full.
\<close>

definition fmt_d :: "nat \<Rightarrow> int \<Rightarrow> string" where
  "fmt_d w i = (if i < 0 then CHR ''-'' # zero_pad (w - 1) (str_nat (nat (- i)))
                else zero_pad w (str_nat (nat i)))"

subsection \<open>\<^verbatim>\<open>format_timestamp_srt\<close>\<close>

definition format_timestamp_srt :: "seconds \<Rightarrow> string" where
  "format_timestamp_srt seconds =
     (let hours = py_int (py_floordiv seconds 3600);
          minutes = py_int (py_floordiv (py_mod seconds 3600) 60);
          secs = py_int (py_mod seconds 60);
          millisecs = py_int (fl (py_mod seconds 1 * 1000))
      in fmt_d 2 hours @ '':'' @ fmt_d 2 minutes @ '':'' @ fmt_d 2 secs @ '','' @ fmt_d 3 millisecs)"

subsection \<open>Exceptions\<close>

text \<open>
  A raised exception is a value: its class and its message, which is what \<^verbatim>\<open>str(e)\<close>
  and an f-string print. \<open>LibraryError\<close> stands for whatever an external call raises.
\<close>

datatype py_exception =
    FileNotFoundError string
  | RuntimeError string
  | ValueError string
  | TypeError string
  | AttributeError string
  | UnboundLocalError string
  | LibraryError string

fun str_exc :: "py_exception \<Rightarrow> string" where
  "str_exc (FileNotFoundError m) = m"
| "str_exc (RuntimeError m) = m"
| "str_exc (ValueError m) = m"
| "str_exc (TypeError m) = m"
| "str_exc (AttributeError m) = m"
| "str_exc (UnboundLocalError m) = m"
| "str_exc (LibraryError m) = m"

subsection \<open>Transcripts and diarization turns\<close>

text \<open>
  A segment is the dict an engine returns for one stretch of speech: the keys
  \<^verbatim>\<open>start\<close>, \<^verbatim>\<open>end\<close>, \<^verbatim>\<open>text\<close>, the key \<^verbatim>\<open>speaker\<close> once diarization has set it, and
  whatever else the engine stored (\<open>seg_other\<close>: ids, tokens, scores, kept as they are).
  A transcription result is the dict with the optional keys \<^verbatim>\<open>text\<close>, \<^verbatim>\<open>segments\<close> and
  \<^verbatim>\<open>language\<close>; as every dict it is falsy exactly when it has no key.
\<close>

record segment =
  seg_start :: seconds
  seg_end :: seconds
  seg_text :: string
  seg_speaker :: "string option"
  seg_other :: "(string \<times> string) list"

record result =
  res_text :: "string option"
  res_segments :: "segment list option"
  res_language :: "string option"

definition truthy_result :: "result \<Rightarrow> bool" where
  "truthy_result r = (res_text r \<noteq> None \<or> res_segments r \<noteq> None \<or> res_language r \<noteq> None)"

text \<open>
  \<^verbatim>\<open>diarization.itertracks(yield_label=True)\<close> yields triples of a turn (an interval),
  a track name and the speaker label, in the order of the annotation.
\<close>

record turn =
  turn_start :: seconds
  turn_end :: seconds

type_synonym track = "turn \<times> string \<times> string"

subsection \<open>The merge loop of \<^verbatim>\<open>add_speaker_diarization\<close>\<close>

text \<open>
  The inner loop: the labels of the turns that hold the start or the end of the
  segment, in the order of the tracks, one entry per such turn.
\<close>

fun matching_speakers :: "track list \<Rightarrow> seconds \<Rightarrow> seconds \<Rightarrow> string list" where
  "matching_speakers [] start_time end_time = []"
| "matching_speakers ((turn, _, speaker) # tracks) start_time end_time =
     (if (turn_start turn \<le> start_time \<and> start_time \<le> turn_end turn)
         \<or> (turn_start turn \<le> end_time \<and> end_time \<le> turn_end turn)
      then speaker # matching_speakers tracks start_time end_time
      else matching_speakers tracks start_time end_time)"

text \<open>
  Python's \<^verbatim>\<open>max(iterable, key=f)\<close>: it keeps the first item and replaces it only by
  an item whose key is strictly greater; on an empty iterable it raises ValueError.
\<close>

fun py_max_from :: "('a \<Rightarrow> nat) \<Rightarrow> 'a \<Rightarrow> 'a list \<Rightarrow> 'a" where
  "py_max_from key best [] = best"
| "py_max_from key best (x # xs) =
     (if key best < key x then py_max_from key x xs else py_max_from key best xs)"

definition py_max :: "('a \<Rightarrow> nat) \<Rightarrow> 'a list \<Rightarrow> py_exception + 'a" where
  "py_max key xs =
     (case xs of [] \<Rightarrow> Inl (ValueError ''max() arg is an empty sequence'')
      | x # rest \<Rightarrow> Inr (py_max_from key x rest))"

text \<open>
  The body of the outer loop for one segment. \<open>set_iter\<close> is the order in which Python
  iterates over \<^verbatim>\<open>set(speakers)\<close>: for strings it follows their hashes, which change
  from process to process, so it is a parameter. \<^verbatim>\<open>speakers.count\<close> is \<open>count_list\<close>.
\<close>

definition assign_speaker ::
  "(string list \<Rightarrow> string list) \<Rightarrow> track list \<Rightarrow> segment \<Rightarrow> py_exception + segment" where
  "assign_speaker set_iter tracks segment =
     (let start_time = seg_start segment;
          end_time = seg_end segment;
          speakers = matching_speakers tracks start_time end_time
      in if speakers \<noteq> []
         then (case py_max (count_list speakers) (set_iter speakers) of
                 Inl e \<Rightarrow> Inl e
               | Inr speaker \<Rightarrow> Inr (segment\<lparr>seg_speaker := Some speaker\<rparr>))
         else Inr (segment\<lparr>seg_speaker := Some ''UNKNOWN''\<rparr>))"

text \<open>
  The outer loop mutates the segments in place, one after the other. When an iteration
  raises, the segments before it keep their new speaker and the others are untouched;
  the exception is returned beside the list.
\<close>

fun merge_segments ::
  "(string list \<Rightarrow> string list) \<Rightarrow> track list \<Rightarrow> segment list
     \<Rightarrow> segment list \<times> py_exception option" where
  "merge_segments set_iter tracks [] = ([], None)"
| "merge_segments set_iter tracks (segment # segments) =
     (case assign_speaker set_iter tracks segment of
        Inl e \<Rightarrow> (segment # segments, Some e)
      | Inr segment' \<Rightarrow>
          (case merge_segments set_iter tracks segments of
             (segments', e) \<Rightarrow> (segment' # segments', e)))"

text \<open>
  The specification's words for a segment that lies inside a turn (the code has no such
  test; it only asks whether an end point of the segment lies in the turn).
\<close>

definition within_turn :: "segment \<Rightarrow> turn \<Rightarrow> bool" where
  "within_turn segment turn =
     (turn_start turn \<le> seg_start segment \<and> seg_end segment \<le> turn_end turn)"

subsection \<open>Strings and paths\<close>

text \<open>
  Paths are POSIX path strings, already in the normal form of \<^verbatim>\<open>pathlib\<close>, so that
  \<^verbatim>\<open>str(Path(p))\<close> is \<open>p\<close>. \<open>path_suffix\<close>, \<open>path_stem\<close> and \<open>path_parent\<close> are the
  properties \<^verbatim>\<open>suffix\<close>, \<^verbatim>\<open>stem\<close> and \<^verbatim>\<open>parent\<close>; \<open>path_join\<close> is the operator \<^verbatim>\<open>/\<close>.
\<close>

type_synonym path = string

definition path_name :: "path \<Rightarrow> string" where
  "path_name p = rev (takeWhile (\<lambda>c. c \<noteq> CHR ''/'') (rev p))"

definition has_suffix :: "string \<Rightarrow> bool" where
  "has_suffix name =
     (let ext = rev (takeWhile (\<lambda>c. c \<noteq> CHR ''.'') (rev name))
      in CHR ''.'' \<in> set name \<and> ext \<noteq> [] \<and> Suc (length ext) < length name)"

definition path_suffix :: "path \<Rightarrow> string" where
  "path_suffix p =
     (let name = path_name p; ext = rev (takeWhile (\<lambda>c. c \<noteq> CHR ''.'') (rev name))
      in if has_suffix name then CHR ''.'' # ext else [])"

definition path_stem :: "path \<Rightarrow> string" where
  "path_stem p =
     (let name = path_name p; ext = rev (takeWhile (\<lambda>c. c \<noteq> CHR ''.'') (rev name))
      in if has_suffix name then take (length name - Suc (length ext)) name else name)"

definition path_parent :: "path \<Rightarrow> path" where
  "path_parent p =
     (let d = take (length p - Suc (length (path_name p))) p
      in if CHR ''/'' \<notin> set p then ''.'' else if d = [] then ''/'' else d)"

definition path_join :: "path \<Rightarrow> string \<Rightarrow> path" where
  "path_join d f = (if d = ''.'' then f else if d = ''/'' then CHR ''/'' # f else d @ ''/'' @ f)"

definition lower_char :: "char \<Rightarrow> char" where
  "lower_char c =
     (case map_of (zip ''ABCDEFGHIJKLMNOPQRSTUVWXYZ'' ''abcdefghijklmnopqrstuvwxyz'') c of
        Some l \<Rightarrow> l
      | None \<Rightarrow> c)"

definition py_lower :: "string \<Rightarrow> string" where
  "py_lower s = map lower_char s"

text \<open>
  \<^verbatim>\<open>str.strip()\<close> removes white space at both ends. A \<open>char\<close> stands for a code point
  below 256; of those, Python counts as white space 9 to 13, 28 to 32, 133 (U+0085)
  and 160 (U+00A0).
\<close>

definition is_space :: "char \<Rightarrow> bool" where
  "is_space c = ((of_char c :: nat) \<in> set [9, 10, 11, 12, 13, 28, 29, 30, 31, 32, 133, 160])"

definition py_strip :: "string \<Rightarrow> string" where
  "py_strip s = rev (dropWhile is_space (rev (dropWhile is_space s)))"

fun py_join :: "string \<Rightarrow> string list \<Rightarrow> string" where
  "py_join sep [] = []"
| "py_join sep [x] = x"
| "py_join sep (x # y # ys) = x @ sep @ py_join sep (y # ys)"

fun starts_with :: "string \<Rightarrow> string \<Rightarrow> bool" where
  "starts_with [] s = True"
| "starts_with (c # sub) [] = False"
| "starts_with (c # sub) (d # s) = (c = d \<and> starts_with sub s)"

text \<open>\<open>contains sub s\<close> is Python's \<^verbatim>\<open>sub in s\<close> on strings.\<close>

fun contains :: "string \<Rightarrow> string \<Rightarrow> bool" where
  "contains sub [] = (sub = [])"
| "contains sub (c # s) = (starts_with sub (c # s) \<or> contains sub s)"

subsection \<open>The environment, the file system and the transcriber object\<close>

text \<open>
  \<open>audio_data\<close> is the sample array that \<^verbatim>\<open>soundfile.read\<close> and \<^verbatim>\<open>librosa.load\<close>
  return: one column per channel. A loaded model or pipeline is an opaque handle.
\<close>

record audio_data =
  channels :: nat
  samples :: "real list"

type_synonym model = nat

text \<open>
  The environment holds the four availability flags set when the module is imported,
  and one function per external call. Each answers with \<open>Inl\<close> of the exception it
  raises or \<open>Inr\<close> of what it returns:
  \<^item> \<open>sf_read p\<close> is \<^verbatim>\<open>sf.read(p)\<close>, the samples and the sample rate;
    \<open>sf_write p data rate\<close> is \<^verbatim>\<open>sf.write\<close>;
  \<^item> \<open>librosa_load p\<close> is \<^verbatim>\<open>librosa.load(p, sr=16000, mono=True)\<close>;
  \<^item> \<open>named_temporary_file\<close> is \<^verbatim>\<open>tempfile.NamedTemporaryFile(suffix='.wav', delete=False)\<close>,
    the name of the file it creates;
  \<^item> \<open>subprocess_run cmd\<close> is \<^verbatim>\<open>subprocess.run(cmd, capture_output=True, text=True)\<close>,
    the return code and the standard error;
  \<^item> \<open>mlx_transcribe p repo\<close> is \<^verbatim>\<open>mlx_whisper.transcribe\<close>; \<open>whisperx_load_model\<close> and
    \<open>whisperx_transcribe\<close> are \<^verbatim>\<open>whisperx.load_model\<close> and the model's \<^verbatim>\<open>transcribe\<close>;
  \<^item> \<open>from_pretrained name token\<close> is \<^verbatim>\<open>Pipeline.from_pretrained\<close> (it may return
    \<^verbatim>\<open>None\<close>), \<open>run_pipeline\<close> the call of the pipeline, whose tracks are listed;
  \<^item> \<open>set_iter\<close> is the iteration order of a set of strings built from a list;
  \<^item> \<open>json_dumps\<close> is \<^verbatim>\<open>json.dumps(result, indent=2, ensure_ascii=False)\<close>, \<open>py_str\<close> is
    \<^verbatim>\<open>str(result)\<close>, and \<open>open_write p s\<close> opens \<open>p\<close> for writing and writes \<open>s\<close>.
\<close>

record env =
  MLX_AVAILABLE :: bool
  LIBROSA_AVAILABLE :: bool
  DIARIZATION_AVAILABLE :: bool
  WHISPERX_AVAILABLE :: bool
  home :: path
  hf_token :: "string option"
  sf_read :: "path \<Rightarrow> py_exception + (audio_data \<times> nat)"
  sf_write :: "path \<Rightarrow> audio_data \<Rightarrow> nat \<Rightarrow> py_exception option"
  librosa_load :: "path \<Rightarrow> py_exception + audio_data"
  named_temporary_file :: "py_exception + path"
  subprocess_run :: "string list \<Rightarrow> py_exception + (int \<times> string)"
  mlx_transcribe :: "path \<Rightarrow> string \<Rightarrow> py_exception + result"
  whisperx_load_model :: "string \<Rightarrow> py_exception + model"
  whisperx_transcribe :: "model \<Rightarrow> audio_data \<Rightarrow> py_exception + result"
  from_pretrained :: "string \<Rightarrow> string option \<Rightarrow> py_exception + model option"
  run_pipeline :: "model \<Rightarrow> path \<Rightarrow> py_exception + track list"
  set_iter :: "string list \<Rightarrow> string list"
  json_dumps :: "result \<Rightarrow> py_exception + string"
  py_str :: "result \<Rightarrow> string"
  open_write :: "path \<Rightarrow> string \<Rightarrow> py_exception option"

text \<open>
  The file system is the set of paths that exist. \<^verbatim>\<open>os.unlink\<close> of an existing file
  removes it; creating or writing a file adds it. \<open>temp_files\<close> is a ghost field that no
  code reads: the names that \<^verbatim>\<open>NamedTemporaryFile\<close> has handed out so far.
\<close>

record world =
  files :: "path set"
  temp_files :: "path set"

definition unlink :: "path \<Rightarrow> world \<Rightarrow> world" where
  "unlink p w = w\<lparr>files := files w - {p}\<rparr>"

definition create :: "path \<Rightarrow> world \<Rightarrow> world" where
  "create p w = w\<lparr>files := insert p (files w)\<rparr>"

definition create_temp :: "path \<Rightarrow> world \<Rightarrow> world" where
  "create_temp p w = w\<lparr>files := insert p (files w), temp_files := insert p (temp_files w)\<rparr>"

text \<open>The attributes of \<^verbatim>\<open>self\<close> that the pipeline reads and writes.\<close>

record transcriber =
  model_size :: string
  language :: "string option"
  output_dir :: "path option"
  diarization_pipeline :: "model option"
  whisperx_model :: "model option"

subsection \<open>\<^verbatim>\<open>preprocess_audio\<close>\<close>

text \<open>
  Lines 198 to 206: a \<^verbatim>\<open>.wav\<close> or \<^verbatim>\<open>.flac\<close> file whose sample rate reads as 16000 is
  returned as it is. An exception of \<^verbatim>\<open>sf.read\<close> is swallowed and conversion follows.
\<close>

definition fast_path :: "env \<Rightarrow> path \<Rightarrow> (path \<times> audio_data \<times> nat) option" where
  "fast_path env audio_path =
     (if py_lower (path_suffix audio_path) \<in> set [''.wav'', ''.flac''] \<and> LIBROSA_AVAILABLE env
      then (case sf_read env audio_path of
              Inl e \<Rightarrow> None
            | Inr (audio_data, sample_rate) \<Rightarrow>
                if sample_rate = 16000 then Some (audio_path, audio_data, sample_rate) else None)
      else None)"

text \<open>
  The handler of lines 245 to 248: remove the temporary file if there is one and it
  exists, then raise \<^verbatim>\<open>RuntimeError\<close> with the message of the exception caught.
\<close>

definition preprocessing_failed ::
  "world \<Rightarrow> path option \<Rightarrow> py_exception \<Rightarrow> (py_exception + path \<times> audio_data \<times> nat) \<times> world" where
  "preprocessing_failed w temp_wav e =
     (Inl (RuntimeError (''Audio preprocessing failed: '' @ str_exc e)),
      (case temp_wav of
         None \<Rightarrow> w
       | Some name \<Rightarrow> if name \<in> files w then unlink name w else w))"

text \<open>Lines 211 to 222: conversion by librosa, when librosa is installed.\<close>

definition convert_with_librosa ::
  "env \<Rightarrow> world \<Rightarrow> path \<Rightarrow> (py_exception + path \<times> audio_data \<times> nat) \<times> world" where
  "convert_with_librosa env w audio_path =
     (case librosa_load env audio_path of
        Inl e \<Rightarrow> preprocessing_failed w None e
      | Inr audio_data \<Rightarrow>
          (case named_temporary_file env of
             Inl e \<Rightarrow> preprocessing_failed w None e
           | Inr temp_wav \<Rightarrow>
               (let w1 = create_temp temp_wav w
                in case sf_write env temp_wav audio_data 16000 of
                     Some e \<Rightarrow> preprocessing_failed w1 (Some temp_wav) e
                   | None \<Rightarrow> (Inr (temp_wav, audio_data, 16000), w1))))"

text \<open>Lines 224 to 243: conversion by ffmpeg, when librosa is not installed.\<close>

definition convert_with_ffmpeg ::
  "env \<Rightarrow> world \<Rightarrow> path \<Rightarrow> (py_exception + path \<times> audio_data \<times> nat) \<times> world" where
  "convert_with_ffmpeg env w audio_path =
     (case named_temporary_file env of
        Inl e \<Rightarrow> preprocessing_failed w None e
      | Inr temp_wav \<Rightarrow>
          (let w1 = create_temp temp_wav w;
               cmd = [''ffmpeg'', ''-i'', audio_path, ''-ar'', ''16000'', ''-ac'', ''1'',
                      ''-f'', ''wav'', ''-y'', temp_wav]
           in case subprocess_run env cmd of
                Inl e \<Rightarrow> preprocessing_failed w1 (Some temp_wav) e
              | Inr (returncode, stderr) \<Rightarrow>
                  if returncode \<noteq> 0
                  then preprocessing_failed w1 (Some temp_wav)
                         (RuntimeError (''FFmpeg conversion failed: '' @ stderr))
                  else (case sf_read env temp_wav of
                          Inl e \<Rightarrow> preprocessing_failed w1 (Some temp_wav) e
                        | Inr (audio_data, sample_rate) \<Rightarrow>
                            (Inr (temp_wav, audio_data, sample_rate), w1))))"

definition preprocess_audio ::
  "env \<Rightarrow> world \<Rightarrow> path \<Rightarrow> (py_exception + path \<times> audio_data \<times> nat) \<times> world" where
  "preprocess_audio env w audio_path =
     (if audio_path \<notin> files w
      then (Inl (FileNotFoundError (''Audio file not found: '' @ audio_path)), w)
      else (case fast_path env audio_path of
              Some r \<Rightarrow> (Inr r, w)
            | None \<Rightarrow>
                if LIBROSA_AVAILABLE env then convert_with_librosa env w audio_path
                else convert_with_ffmpeg env w audio_path))"

subsection \<open>The two engines\<close>

text \<open>\<^verbatim>\<open>if self.language:\<close> holds for a language that is neither \<^verbatim>\<open>None\<close> nor empty.\<close>

definition truthy_str :: "string option \<Rightarrow> bool" where
  "truthy_str s = (s \<noteq> None \<and> s \<noteq> Some [])"

definition transcribe_with_mlx :: "transcriber \<Rightarrow> env \<Rightarrow> path \<Rightarrow> py_exception + result" where
  "transcribe_with_mlx self env audio_path =
     (let model_name = (if contains ''turbo'' (model_size self)
                        then ''mlx-community/whisper-'' @ model_size self
                        else ''mlx-community/whisper-'' @ model_size self @ ''-mlx'')
      in case mlx_transcribe env audio_path model_name of
           Inl e \<Rightarrow> Inl e
         | Inr result \<Rightarrow>
             Inr (if truthy_str (language self) then result\<lparr>res_language := language self\<rparr>
                  else result))"

definition load_whisperx_model :: "transcriber \<Rightarrow> env \<Rightarrow> bool \<times> transcriber" where
  "load_whisperx_model self env =
     (if \<not> WHISPERX_AVAILABLE env then (False, self)
      else (case whisperx_load_model env (model_size self) of
              Inl e \<Rightarrow> (False, self)
            | Inr m \<Rightarrow> (True, self\<lparr>whisperx_model := Some m\<rparr>)))"

text \<open>
  The model is loaded on first use and kept in \<^verbatim>\<open>self.whisperx_model\<close>, so the call
  returns the transcriber beside its result.
\<close>

definition transcribe_with_whisperx ::
  "transcriber \<Rightarrow> env \<Rightarrow> path \<Rightarrow> audio_data \<Rightarrow> nat \<Rightarrow> (py_exception + result) \<times> transcriber" where
  "transcribe_with_whisperx self env audio_path audio_data sample_rate =
     (case (if whisperx_model self = None then load_whisperx_model self env else (True, self)) of
        (False, self') \<Rightarrow> (Inl (RuntimeError ''Failed to load WhisperX model''), self')
      | (True, self') \<Rightarrow>
          (case whisperx_model self' of
             None \<Rightarrow> (Inl (AttributeError ''NoneType object has no attribute transcribe''), self')
           | Some m \<Rightarrow> (whisperx_transcribe env m audio_data, self')))"

subsection \<open>\<^verbatim>\<open>add_speaker_diarization\<close>\<close>

definition load_diarization_model :: "transcriber \<Rightarrow> env \<Rightarrow> world \<Rightarrow> bool \<times> transcriber" where
  "load_diarization_model self env w =
     (if \<not> DIARIZATION_AVAILABLE env then (False, self)
      else (let models_dir = home env @ ''/Applications/Audio2Text/models/diarization'';
                loaded = (if models_dir \<in> files w \<and> models_dir @ ''/config.yaml'' \<in> files w
                             \<and> models_dir @ ''/pytorch_model.bin'' \<in> files w
                          then from_pretrained env models_dir None
                          else from_pretrained env ''pyannote/speaker-diarization-3.1'' (hf_token env))
            in case loaded of
                 Inl e \<Rightarrow> (False, self)
               | Inr pipeline \<Rightarrow> (True, self\<lparr>diarization_pipeline := pipeline\<rparr>)))"

text \<open>
  The segments are mutated in place and the same result object is returned, also by the
  handler when the loop raises; so the result carries the segments as the loop left
  them. When the key \<^verbatim>\<open>segments\<close> is missing the loop runs over an empty list.
\<close>

definition add_speaker_diarization ::
  "transcriber \<Rightarrow> env \<Rightarrow> world \<Rightarrow> path \<Rightarrow> result \<Rightarrow> result \<times> transcriber" where
  "add_speaker_diarization self env w audio_path transcription_result =
     (case (if diarization_pipeline self = None then load_diarization_model self env w
            else (True, self)) of
        (False, self') \<Rightarrow> (transcription_result, self')
      | (True, self') \<Rightarrow>
          (case (case diarization_pipeline self' of
                   None \<Rightarrow> Inl (TypeError ''NoneType object is not callable'')
                 | Some pipeline \<Rightarrow> run_pipeline env pipeline audio_path) of
             Inl e \<Rightarrow> (transcription_result, self')
           | Inr diarization \<Rightarrow>
               (case res_segments transcription_result of
                  None \<Rightarrow> (transcription_result, self')
                | Some segments \<Rightarrow>
                    (transcription_result
                       \<lparr>res_segments := Some (fst (merge_segments (set_iter env) diarization segments))\<rparr>,
                     self'))))"

subsection \<open>\<^verbatim>\<open>format_output\<close>\<close>

definition newline :: string where
  "newline = [CHR 0x0A]"

definition segment_text :: "bool \<Rightarrow> segment \<Rightarrow> string" where
  "segment_text include_speakers segment =
     (let text = py_strip (seg_text segment)
      in case seg_speaker segment of
           Some speaker \<Rightarrow> if include_speakers then ''['' @ speaker @ ''] '' @ text else text
         | None \<Rightarrow> text)"

definition srt_block :: "bool \<Rightarrow> nat \<times> segment \<Rightarrow> string list" where
  "srt_block include_speakers numbered =
     (case numbered of
        (i, segment) \<Rightarrow>
          [str_nat i,
           format_timestamp_srt (seg_start segment) @ '' --> '' @ format_timestamp_srt (seg_end segment),
           segment_text include_speakers segment,
           []])"

definition format_output :: "env \<Rightarrow> result \<Rightarrow> string \<Rightarrow> bool \<Rightarrow> py_exception + string" where
  "format_output env result format_type include_speakers =
     (let segments = (case res_segments result of None \<Rightarrow> [] | Some segs \<Rightarrow> segs)
      in if format_type = ''json'' then json_dumps env result
         else if format_type = ''srt''
         then Inr (py_join newline
                     (concat (map (srt_block include_speakers)
                                  (zip [1 ..< Suc (length segments)] segments))))
         else if format_type = ''txt''
         then (case res_text result of
                 Some text \<Rightarrow> Inr text
               | None \<Rightarrow> Inr (py_join newline (map (segment_text include_speakers) segments)))
         else Inr (py_str env result))"

subsection \<open>\<^verbatim>\<open>transcribe_file\<close>\<close>

text \<open>
  The dict that \<^verbatim>\<open>transcribe_file\<close> returns, as the list of its keys and values in the
  order of the dict literal.
\<close>

datatype py_value = PyBool bool | PyStr string | PyResult result

type_synonym outcome = "(string \<times> py_value) list"

definition failure :: "py_exception \<Rightarrow> outcome" where
  "failure e = [(''success'', PyBool False), (''error'', PyStr (str_exc e))]"

definition truthy :: "result option \<Rightarrow> bool" where
  "truthy r = (case r of None \<Rightarrow> False | Some d \<Rightarrow> truthy_result d)"

text \<open>
  Lines 396 to 412: the variables \<^verbatim>\<open>result\<close> and \<^verbatim>\<open>engine_used\<close> after the two attempts
  (\<open>None\<close> for \<^verbatim>\<open>engine_used\<close> while it is unbound). An attempt that raises leaves both
  as they were.
\<close>

definition try_engines ::
  "transcriber \<Rightarrow> env \<Rightarrow> path \<Rightarrow> audio_data \<Rightarrow> nat
     \<Rightarrow> (result option \<times> string option) \<times> transcriber" where
  "try_engines self env processed_audio_path audio_data sample_rate =
     (let first = (if MLX_AVAILABLE env
                   then (case transcribe_with_mlx self env processed_audio_path of
                           Inr r \<Rightarrow> (Some r, Some ''MLX Whisper'')
                         | Inl e \<Rightarrow> (None, None))
                   else (None, None))
      in if \<not> truthy (fst first) \<and> WHISPERX_AVAILABLE env
         then (case transcribe_with_whisperx self env processed_audio_path audio_data sample_rate of
                 (Inr r, self') \<Rightarrow> ((Some r, Some ''WhisperX''), self')
               | (Inl e, self') \<Rightarrow> (first, self'))
         else (first, self))"

definition output_path_of :: "transcriber \<Rightarrow> path \<Rightarrow> string \<Rightarrow> path" where
  "output_path_of self audio_path output_format =
     (let output_filename = path_stem audio_path @ ''_transcript.'' @ output_format
      in case output_dir self of
           Some dir \<Rightarrow> path_join dir output_filename
         | None \<Rightarrow> path_join (path_parent audio_path) output_filename)"

text \<open>
  Lines 395 to 447, the \<^verbatim>\<open>try\<close> block after preprocessing: the outcome it returns or the
  exception it raises, with the transcriber and the file system as it leaves them.
\<close>

definition transcribe_body ::
  "transcriber \<Rightarrow> env \<Rightarrow> world \<Rightarrow> path \<Rightarrow> string \<Rightarrow> bool \<Rightarrow> path \<Rightarrow> audio_data \<Rightarrow> nat
     \<Rightarrow> (py_exception + outcome) \<times> transcriber \<times> world" where
  "transcribe_body self env w audio_path output_format include_speakers
       processed_audio_path audio_data sample_rate =
     (case try_engines self env processed_audio_path audio_data sample_rate of
        ((result, engine_used), self1) \<Rightarrow>
          (case (if truthy result then result else None) of
             None \<Rightarrow> (Inl (RuntimeError ''All transcription engines failed''), self1, w)
           | Some found \<Rightarrow>
               (case (if include_speakers
                      then add_speaker_diarization self1 env w processed_audio_path found
                      else (found, self1)) of
                  (labelled, self2) \<Rightarrow>
                    (case format_output env labelled output_format include_speakers of
                       Inl e \<Rightarrow> (Inl e, self2, w)
                     | Inr formatted_result \<Rightarrow>
                         (let output_path = output_path_of self2 audio_path output_format
                          in case open_write env output_path formatted_result of
                               Some e \<Rightarrow> (Inl e, self2, w)
                             | None \<Rightarrow>
                                 (case engine_used of
                                    None \<Rightarrow>
                                      (Inl (UnboundLocalError ''engine_used''), self2,
                                       create output_path w)
                                  | Some engine \<Rightarrow>
                                      (Inr [(''success'', PyBool True),
                                            (''output_path'', PyStr output_path),
                                            (''engine'', PyStr engine),
                                            (''result'', PyResult labelled)],
                                       self2, create output_path w)))))))"

text \<open>
  The whole method. An exception of the \<^verbatim>\<open>try\<close> block becomes the failure dict. The
  \<^verbatim>\<open>finally\<close> clause removes the processed file when its name is not empty and is not
  the input path; after a failed preprocessing that name is still \<^verbatim>\<open>None\<close>.
\<close>

definition transcribe_file ::
  "transcriber \<Rightarrow> env \<Rightarrow> world \<Rightarrow> path \<Rightarrow> string \<Rightarrow> bool \<Rightarrow> outcome \<times> transcriber \<times> world" where
  "transcribe_file self env w audio_path output_format include_speakers =
     (case preprocess_audio env w audio_path of
        (Inl e, w1) \<Rightarrow> (failure e, self, w1)
      | (Inr (processed_audio_path, audio_data, sample_rate), w1) \<Rightarrow>
          (case transcribe_body self env w1 audio_path output_format include_speakers
                  processed_audio_path audio_data sample_rate of
             (r, self', w2) \<Rightarrow>
               ((case r of Inl e \<Rightarrow> failure e | Inr returned \<Rightarrow> returned),
                self',
                (if processed_audio_path \<noteq> [] \<and> processed_audio_path \<noteq> audio_path
                 then unlink processed_audio_path w2 else w2))))"

subsection \<open>An environment for the examples\<close>

text \<open>
  A machine on which nothing is installed and every external call fails, except that a
  temporary file can be created and files can be written. The examples switch single
  fields on.
\<close>

definition offline_env :: env where
  "offline_env =
     \<lparr>MLX_AVAILABLE = False, LIBROSA_AVAILABLE = False, DIARIZATION_AVAILABLE = False,
      WHISPERX_AVAILABLE = False, home = ''/home/user'', hf_token = None,
      sf_read = (\<lambda>p. Inl (LibraryError ''unreadable'')),
      sf_write = (\<lambda>p data rate. None),
      librosa_load = (\<lambda>p. Inl (LibraryError ''unknown format'')),
      named_temporary_file = Inr ''/tmp/tmpk3x9.wav'',
      subprocess_run = (\<lambda>cmd. Inl (FileNotFoundError ''ffmpeg'')),
      mlx_transcribe = (\<lambda>p repo. Inl (LibraryError ''mlx failed'')),
      whisperx_load_model = (\<lambda>size. Inl (LibraryError ''no model'')),
      whisperx_transcribe = (\<lambda>m data. Inl (LibraryError ''whisperx failed'')),
      from_pretrained = (\<lambda>name token. Inl (LibraryError ''no pipeline'')),
      run_pipeline = (\<lambda>m p. Inl (LibraryError ''diarization failed'')),
      set_iter = remdups,
      json_dumps = (\<lambda>r. Inr ''{}''),
      py_str = (\<lambda>r. ''{}''),
      open_write = (\<lambda>p s. None)\<rparr>"

definition example_transcriber :: transcriber where
  "example_transcriber =
     \<lparr>model_size = ''large-v3-turbo'', language = None, output_dir = None,
      diarization_pipeline = None, whisperx_model = None\<rparr>"

definition example_result :: result where
  "example_result =
     \<lparr>res_text = Some ''test'',
      res_segments = Some [\<lparr>seg_start = 0, seg_end = 3, seg_text = ''test'', seg_speaker = None,
                             seg_other = []\<rparr>],
      res_language = Some ''en''\<rparr>"

text \<open>The same machine with librosa installed and able to decode any file.\<close>

definition converting_env :: env where
  "converting_env =
     offline_env\<lparr>LIBROSA_AVAILABLE := True,
       librosa_load := (\<lambda>p. Inr \<lparr>channels = 1, samples = [0, 0]\<rparr>)\<rparr>"

section \<open>Properties\<close>

subsection \<open>Rounding to the nearest double\<close>

lemma rne_of_int: "rne (of_int k) = k"
  by (simp add: rne_def)

lemma rne_ge:
  assumes "of_int N \<le> y"
  shows "N \<le> rne y"
proof -
  from assms have "N \<le> \<lfloor>y\<rfloor>" by (simp add: le_floor_iff)
  moreover have "\<lfloor>y\<rfloor> \<le> rne y" by (simp add: rne_def Let_def)
  ultimately show ?thesis by simp
qed

lemma rne_le:
  assumes "y \<le> of_int N"
  shows "rne y \<le> N"
proof (cases "y = of_int \<lfloor>y\<rfloor>")
  case True
  then have "rne y = \<lfloor>y\<rfloor>" by (simp add: rne_def Let_def)
  moreover from assms have "\<lfloor>y\<rfloor> \<le> N" by (simp add: floor_le_iff)
  ultimately show ?thesis by simp
next
  case False
  with of_int_floor_le [of y] have "of_int \<lfloor>y\<rfloor> < y" by linarith
  with assms have "of_int \<lfloor>y\<rfloor> < (of_int N :: real)" by linarith
  then have "\<lfloor>y\<rfloor> < N" by (simp only: of_int_less_iff)
  moreover have "rne y \<le> \<lfloor>y\<rfloor> + 1" by (simp add: rne_def Let_def)
  ultimately show ?thesis by simp
qed

lemma rne_below_half:
  assumes "y < of_int N - 1 / 2"
  shows "rne y < N"
proof -
  from assms have "y < of_int N" by simp
  then have f: "\<lfloor>y\<rfloor> < N" by (simp add: floor_less_iff)
  show ?thesis
  proof (cases "\<lfloor>y\<rfloor> = N - 1")
    case True
    then have "of_int \<lfloor>y\<rfloor> = of_int N - (1::real)" by simp
    with assms have "y - of_int \<lfloor>y\<rfloor> < 1 / 2" by simp
    then have "rne y = \<lfloor>y\<rfloor>" by (simp add: rne_def Let_def)
    with True show ?thesis by simp
  next
    case False
    with f have "\<lfloor>y\<rfloor> + 1 < N" by simp
    moreover have "rne y \<le> \<lfloor>y\<rfloor> + 1" by (simp add: rne_def Let_def)
    ultimately show ?thesis by simp
  qed
qed

lemma real_le_pow2: "(n::int) \<le> 2 ^ k \<Longrightarrow> real_of_int n \<le> 2 ^ k"
  by (metis of_int_le_iff of_int_numeral of_int_power)

lemma real_ge_pow2: "2 ^ k \<le> (n::int) \<Longrightarrow> 2 ^ k \<le> real_of_int n"
  by (metis of_int_le_iff of_int_numeral of_int_power)

lemma powi_nat: "0 \<le> k \<Longrightarrow> (2::real) powi k = 2 ^ nat k"
  by (simp add: power_int_def)

lemma powi_neg_nat: "0 \<le> k \<Longrightarrow> (2::real) powi (- k) = 1 / 2 ^ nat k"
  by (cases "k = 0") (simp_all add: power_int_def field_simps)

lemma ilog2_bounds:
  assumes "0 < x"
  shows "2 powi (ilog2 x) \<le> x" and "x < 2 powi (ilog2 x + 1)"
proof -
  have "2 powi (ilog2 x) \<le> x \<and> x < 2 powi (ilog2 x + 1)"
  proof (cases "1 \<le> x")
    case True
    define n where "n = \<lfloor>x\<rfloor>"
    define b where "b = bitlen n"
    from True have n: "0 < n" by (simp add: n_def)
    from bitlen_bounds [OF n] have bb: "2 ^ nat (b - 1) \<le> n" "n < 2 ^ nat b"
      by (simp_all add: b_def)
    have b1: "1 \<le> b" using n by (auto simp: bitlen_alt_def b_def)
    have e: "ilog2 x = b - 1" using True by (simp add: ilog2_def n_def b_def)
    have nx: "real_of_int n \<le> x" "x < real_of_int n + 1"
      unfolding n_def by linarith+
    have "2 ^ nat (b - 1) \<le> real_of_int n" using bb(1) by (rule real_ge_pow2)
    with nx(1) have "2 ^ nat (b - 1) \<le> x" by linarith
    moreover have "(2::real) powi (b - 1) = 2 ^ nat (b - 1)" using b1 by (simp add: powi_nat)
    ultimately have lo: "2 powi (ilog2 x) \<le> x" by (simp add: e)
    have "n + 1 \<le> 2 ^ nat b" using bb(2) by simp
    then have "real_of_int (n + 1) \<le> 2 ^ nat b" by (rule real_le_pow2)
    with nx(2) have "x < 2 ^ nat b" by simp
    moreover have "(2::real) powi b = 2 ^ nat b" using b1 by (simp add: powi_nat)
    ultimately have hi: "x < 2 powi (ilog2 x + 1)" by (simp add: e)
    from lo hi show ?thesis by simp
  next
    case False
    then have x1: "x < 1" by simp
    define c where "c = \<lceil>1 / x\<rceil>"
    define k where "k = bitlen (c - 1)"
    have y1: "1 < 1 / x" using assms x1 by simp
    have cy: "1 / x \<le> real_of_int c" "real_of_int c - 1 < 1 / x"
      unfolding c_def by linarith+
    from y1 cy(1) have "1 < real_of_int c" by linarith
    then have "1 < c" by simp
    then have c: "0 < c - 1" by simp
    from bitlen_bounds [OF c] have bb: "2 ^ nat (k - 1) \<le> c - 1" "c - 1 < 2 ^ nat k"
      by (simp_all add: k_def)
    have k1: "1 \<le> k" using c by (auto simp: bitlen_alt_def k_def)
    have e: "ilog2 x = - k" using False by (simp add: ilog2_def c_def k_def)
    have "c \<le> 2 ^ nat k" using bb(2) by simp
    then have "real_of_int c \<le> 2 ^ nat k" by (rule real_le_pow2)
    with cy(1) have "1 / x \<le> 2 ^ nat k" by linarith
    then have "1 \<le> 2 ^ nat k * x" using assms by (simp add: field_simps)
    then have "1 / 2 ^ nat k \<le> x" by (simp add: field_simps)
    moreover have "(2::real) powi (- k) = 1 / 2 ^ nat k" using k1 by (simp add: powi_neg_nat)
    ultimately have lo: "2 powi (ilog2 x) \<le> x" by (simp add: e)
    have "2 ^ nat (k - 1) \<le> real_of_int (c - 1)" using bb(1) by (rule real_ge_pow2)
    with cy(2) have "2 ^ nat (k - 1) < 1 / x" by simp
    then have "2 ^ nat (k - 1) * x < 1" using assms by (simp add: field_simps)
    then have "x < 1 / 2 ^ nat (k - 1)" by (simp add: field_simps)
    moreover have "(2::real) powi (- (k - 1)) = 1 / 2 ^ nat (k - 1)"
      using k1 by (intro powi_neg_nat) simp
    moreover have "ilog2 x + 1 = - (k - 1)" by (simp add: e)
    ultimately have hi: "x < 2 powi (ilog2 x + 1)" by simp
    from lo hi show ?thesis by simp
  qed
  then show "2 powi (ilog2 x) \<le> x" and "x < 2 powi (ilog2 x + 1)" by simp_all
qed

lemma ilog2_less:
  assumes "0 < x" and "x < 2 powi n"
  shows "ilog2 x < n"
proof (rule ccontr)
  assume "\<not> ilog2 x < n"
  then have "n \<le> ilog2 x" by simp
  then have "(2::real) powi n \<le> 2 powi (ilog2 x)" by (intro power_int_increasing) simp_all
  with ilog2_bounds(1) [OF assms(1)] assms(2) show False by linarith
qed

lemma ilog2_ge:
  assumes "0 < x" and "2 powi n \<le> x"
  shows "n \<le> ilog2 x"
proof (rule ccontr)
  assume "\<not> n \<le> ilog2 x"
  then have "ilog2 x + 1 \<le> n" by simp
  then have "(2::real) powi (ilog2 x + 1) \<le> 2 powi n" by (intro power_int_increasing) simp_all
  with ilog2_bounds(2) [OF assms(1)] assms(2) show False by linarith
qed

lemma ilog2_eq:
  assumes "2 powi n \<le> x" and "x < 2 powi (n + 1)"
  shows "ilog2 x = n"
proof -
  have "(0::real) < 2 powi n" by simp
  with assms(1) have x: "0 < x" by linarith
  from ilog2_less [OF x assms(2)] ilog2_ge [OF x assms(1)] show ?thesis by simp
qed


lemma fl_quantum: "x \<noteq> 0 \<Longrightarrow> fl x = quantum x * of_int (rne (x / quantum x))"
  by (simp add: fl_def)

lemma fl_zero: "fl 0 = 0"
  by (simp add: fl_def)

lemma quantum_pos: "0 < quantum x"
  by (simp add: quantum_def)

lemma quantum_inverse:
  assumes "0 < x" and "x < 2 ^ 53"
  shows "\<exists>j::nat. quantum x = 1 / 2 ^ j"
proof -
  have "x < 2 powi 53" using assms(2) by simp
  from ilog2_less [OF assms(1) this] have "max (ilog2 x) (- 1022) \<le> 52" by simp
  then have k: "0 \<le> 52 - max (ilog2 x) (- 1022)" by simp
  have "quantum x = 2 powi (- (52 - max (ilog2 x) (- 1022)))"
    using assms(1) by (simp add: quantum_def)
  also have "\<dots> = 1 / 2 ^ nat (52 - max (ilog2 x) (- 1022))"
    using k by (rule powi_neg_nat)
  finally show ?thesis by blast
qed

lemma fl_sandwich:
  assumes "of_int n \<le> x" and "x \<le> of_int m" and "0 \<le> x" and "x < 2 ^ 53"
  shows "of_int n \<le> fl x" and "fl x \<le> of_int m"
proof -
  have "of_int n \<le> fl x \<and> fl x \<le> of_int m"
  proof (cases "x = 0")
    case True
    with assms show ?thesis by (simp add: fl_zero)
  next
    case False
    with assms(3) have x: "0 < x" by simp
    from quantum_inverse [OF x assms(4)] obtain j :: nat where q: "quantum x = 1 / 2 ^ j" by blast
    have xq: "x / quantum x = x * 2 ^ j" by (simp add: q)
    have "real_of_int (n * 2 ^ j) \<le> x * 2 ^ j" using assms(1) by simp
    then have lo: "n * 2 ^ j \<le> rne (x / quantum x)" unfolding xq by (rule rne_ge)
    have "x * 2 ^ j \<le> real_of_int (m * 2 ^ j)" using assms(2) by simp
    then have hi: "rne (x / quantum x) \<le> m * 2 ^ j" unfolding xq by (rule rne_le)
    have f: "fl x = of_int (rne (x / quantum x)) / 2 ^ j"
      using False by (simp add: fl_quantum q)
    from lo have "real_of_int (n * 2 ^ j) \<le> of_int (rne (x / quantum x))"
      by (simp only: of_int_le_iff)
    then have "of_int n \<le> fl x" unfolding f by (simp add: field_simps)
    moreover
    from hi have "real_of_int (rne (x / quantum x)) \<le> of_int (m * 2 ^ j)"
      by (simp only: of_int_le_iff)
    then have "fl x \<le> of_int m" unfolding f by (simp add: field_simps)
    ultimately show ?thesis by simp
  qed
  then show "of_int n \<le> fl x" and "fl x \<le> of_int m" by simp_all
qed

lemma fl_of_int:
  assumes "0 \<le> n" and "n < 2 ^ 53"
  shows "fl (of_int n) = of_int n"
proof -
  have "real_of_int n < 2 ^ 53" using assms(2) by (metis of_int_less_iff of_int_numeral of_int_power)
  with fl_sandwich [of n "of_int n" n] assms(1) show ?thesis by simp
qed

subsection \<open>The float operations of the formatter are exact below \<open>2^53\<close>\<close>

lemma fmod_nonneg:
  assumes "0 \<le> x" and "0 < y"
  shows "fmod x y = x - y * of_int \<lfloor>x / y\<rfloor>" and "0 \<le> fmod x y" and "fmod x y < y"
proof -
  have "0 \<le> x / y" using assms by simp
  then have q: "\<not> x / y < 0" by linarith
  then show eq: "fmod x y = x - y * of_int \<lfloor>x / y\<rfloor>" by (simp add: fmod_def)
  have "of_int \<lfloor>x / y\<rfloor> \<le> x / y" by simp
  then have "y * of_int \<lfloor>x / y\<rfloor> \<le> y * (x / y)" using assms(2) by (intro mult_left_mono) simp_all
  also have "y * (x / y) = x" using assms(2) by simp
  finally show "0 \<le> fmod x y" by (simp add: eq)
  have "x / y < of_int \<lfloor>x / y\<rfloor> + 1" by linarith
  then have "y * (x / y) < y * (of_int \<lfloor>x / y\<rfloor> + 1)" using assms(2) by (intro mult_strict_left_mono)
  moreover have "y * (x / y) = x" using assms(2) by simp
  ultimately have "x < y * of_int \<lfloor>x / y\<rfloor> + y" by (simp add: algebra_simps)
  then show "fmod x y < y" by (simp add: eq)
qed

lemma py_mod_exact:
  assumes "0 \<le> x" and "0 < y"
  shows "py_mod x y = x - y * of_int \<lfloor>x / y\<rfloor>"
  using fmod_nonneg [OF assms] assms(2) by (simp add: py_mod_def Let_def)

lemma py_mod_range:
  assumes "0 \<le> x" and "0 < y"
  shows "0 \<le> py_mod x y" and "py_mod x y < y"
  using fmod_nonneg [OF assms] assms(2) by (simp_all add: py_mod_def Let_def)

lemma py_floordiv_exact:
  assumes "0 \<le> x" and "x < 2 ^ 53" and "0 < Y"
  shows "py_floordiv x (of_int Y) = of_int \<lfloor>x / of_int Y\<rfloor>"
proof -
  define k where "k = \<lfloor>x / of_int Y\<rfloor>"
  have y: "(0::real) < of_int Y" using assms(3) by simp
  have k0: "0 \<le> k" using assms(1) y by (simp add: k_def)
  have m: "fmod x (of_int Y) = x - of_int Y * of_int k"
    unfolding k_def by (rule fmod_nonneg(1) [OF assms(1) y])
  have m0: "0 \<le> fmod x (of_int Y)" by (rule fmod_nonneg(2) [OF assms(1) y])
  have diff: "x - fmod x (of_int Y) = of_int (Y * k)" by (simp add: m)
  have "real_of_int (Y * k) \<le> x" using m0 by (simp add: m)
  with assms(2) have "real_of_int (Y * k) < 2 ^ 53" by linarith
  then have Yk: "Y * k < 2 ^ 53" by (metis of_int_less_iff of_int_numeral of_int_power)
  have Yk0: "0 \<le> Y * k" using k0 assms(3) by simp
  have "k \<le> Y * k" using k0 assms(3) by (simp add: mult_le_cancel_right1)
  with Yk have kb: "k < 2 ^ 53" by linarith
  have f1: "fl (x - fmod x (of_int Y)) = of_int (Y * k)"
    unfolding diff by (rule fl_of_int [OF Yk0 Yk])
  have "real_of_int (Y * k) / of_int Y = of_int k" using y by simp
  then have d: "fl (fl (x - fmod x (of_int Y)) / of_int Y) = of_int k"
    unfolding f1 using fl_of_int [OF k0 kb] by simp
  have sign: "\<not> (fmod x (of_int Y) \<noteq> 0 \<and> ((real_of_int Y < 0) \<noteq> (fmod x (of_int Y) < 0)))"
    using m0 y by simp
  have quot: "(if fmod x (of_int Y) \<noteq> 0 \<and> ((real_of_int Y < 0) \<noteq> (fmod x (of_int Y) < 0))
               then fl (fl (fl (x - fmod x (of_int Y)) / of_int Y) - 1)
               else fl (fl (x - fmod x (of_int Y)) / of_int Y)) = of_int k"
    by (subst if_not_P [OF sign]) (rule d)
  have "py_floordiv x (of_int Y)
          = (if real_of_int k \<noteq> 0
             then (if 1 / 2 < fl (real_of_int k - of_int \<lfloor>real_of_int k\<rfloor>)
                   then fl (of_int \<lfloor>real_of_int k\<rfloor> + 1) else of_int \<lfloor>real_of_int k\<rfloor>)
             else 0)"
    unfolding py_floordiv_def Let_def quot ..
  also have "\<dots> = of_int k" by (simp add: fl_zero)
  finally show ?thesis by (simp only: k_def)
qed

lemma quantum_eq:
  assumes "0 < x" and "x < 2 ^ 53"
  shows "quantum x = 1 / 2 ^ nat (52 - max (ilog2 x) (- 1022))"
    and "max (ilog2 x) (- 1022) \<le> 52"
proof -
  have "x < 2 powi 53" using assms(2) by simp
  from ilog2_less [OF assms(1) this] show le: "max (ilog2 x) (- 1022) \<le> 52" by simp
  then have k: "0 \<le> 52 - max (ilog2 x) (- 1022)" by simp
  have "quantum x = 2 powi (- (52 - max (ilog2 x) (- 1022)))"
    using assms(1) by (simp add: quantum_def)
  also have "\<dots> = 1 / 2 ^ nat (52 - max (ilog2 x) (- 1022))"
    using k by (rule powi_neg_nat)
  finally show "quantum x = 1 / 2 ^ nat (52 - max (ilog2 x) (- 1022))" .
qed

lemma double_frac_bound:
  assumes "fl s = s" and "0 \<le> s" and "s < 2 ^ 53"
  shows "s - of_int \<lfloor>s\<rfloor> \<le> 1 - 1 / 2 ^ 53"
proof (cases "s = 0")
  case True
  then show ?thesis by simp
next
  case False
  with assms(2) have s: "0 < s" by simp
  define E where "E = max (ilog2 s) (- 1022)"
  define j where "j = nat (52 - E)"
  have q: "quantum s = 1 / 2 ^ j" and E52: "E \<le> 52"
    using quantum_eq [OF s assms(3)] by (simp_all add: E_def j_def)
  define k where "k = rne (s / quantum s)"
  have "s = quantum s * of_int k" using assms(1) False by (simp add: fl_quantum k_def)
  then have sk: "s * 2 ^ j = of_int k" by (simp add: q)
  have frac: "0 \<le> s - of_int \<lfloor>s\<rfloor>" "s - of_int \<lfloor>s\<rfloor> < 1" by linarith+
  show ?thesis
  proof (cases "j \<le> 53")
    case True
    define r where "r = k - \<lfloor>s\<rfloor> * 2 ^ j"
    have r: "(s - of_int \<lfloor>s\<rfloor>) * 2 ^ j = of_int r"
      by (simp add: r_def algebra_simps sk [symmetric])
    have "(s - of_int \<lfloor>s\<rfloor>) * 2 ^ j < 1 * 2 ^ j"
      using frac(2) by (intro mult_strict_right_mono) simp_all
    then have "real_of_int r < 2 ^ j" by (simp add: r)
    then have "r < 2 ^ j" by (metis of_int_less_iff of_int_numeral of_int_power)
    then have "r \<le> 2 ^ j - 1" by simp
    then have "real_of_int r \<le> of_int (2 ^ j - 1)" by (simp only: of_int_le_iff)
    then have "(s - of_int \<lfloor>s\<rfloor>) * 2 ^ j \<le> 2 ^ j - 1" by (simp add: r)
    then have "s - of_int \<lfloor>s\<rfloor> \<le> (2 ^ j - 1) / 2 ^ j" by (simp add: field_simps)
    also have "\<dots> = 1 - 1 / 2 ^ j" by (simp add: field_simps)
    also have "\<dots> \<le> 1 - 1 / 2 ^ 53"
    proof -
      have "(2::real) ^ j \<le> 2 ^ 53" using True by (intro power_increasing) simp_all
      then have "1 / (2::real) ^ 53 \<le> 1 / 2 ^ j" by (intro divide_left_mono) simp_all
      then show ?thesis by linarith
    qed
    finally show ?thesis .
  next
    case False
    then have "E < - 1" by (simp add: j_def)
    then have "ilog2 s + 1 \<le> - 1" by (simp add: E_def)
    then have "(2::real) powi (ilog2 s + 1) \<le> 2 powi (- 1)"
      by (intro power_int_increasing) simp_all
    with ilog2_bounds(2) [OF s] have "s < 2 powi (- 1)" by linarith
    then have "s < 1 / 2" by (simp add: power_int_def)
    moreover have "0 \<le> real_of_int \<lfloor>s\<rfloor>" using assms(2) by simp
    ultimately have "s - of_int \<lfloor>s\<rfloor> < 1 / 2" by linarith
    moreover have "(1::real) / 2 \<le> 1 - 1 / 2 ^ 53" by simp
    ultimately show ?thesis by linarith
  qed
qed

lemma product_below_1000:
  assumes "0 \<le> f" and "f \<le> 1 - 1 / 2 ^ 53"
  shows "fl (f * 1000) < 1000"
proof (cases "f * 1000 \<le> 999")
  case True
  have "fl (f * 1000) \<le> of_int 999"
    by (rule fl_sandwich(2) [of 0]) (use True assms(1) in simp_all)
  then show ?thesis by simp
next
  case False
  define p where "p = f * 1000"
  have p: "999 < p" "p \<le> 1000 - 1000 / 2 ^ 53"
    using False assms(2) by (simp_all add: p_def)
  have "2 powi 9 \<le> p" "p < 2 powi (9 + 1)" using p by simp_all
  then have e: "ilog2 p = 9" by (rule ilog2_eq)
  have p0: "p \<noteq> 0" "\<bar>p\<bar> = p" using p(1) by simp_all
  have "quantum p = 2 powi (- 43)" by (simp add: quantum_def p0 e)
  also have "\<dots> = 1 / 2 ^ nat 43" by (rule powi_neg_nat) simp
  finally have q: "quantum p = 1 / 2 ^ 43" by simp
  have "p * 2 ^ 43 \<le> (1000 - 1000 / 2 ^ 53) * 2 ^ 43"
    using p(2) by (intro mult_right_mono) simp_all
  also have "\<dots> < real_of_int (1000 * 2 ^ 43) - 1 / 2" by simp
  finally have "rne (p * 2 ^ 43) < 1000 * 2 ^ 43" by (rule rne_below_half)
  then have "rne (p * 2 ^ 43) \<le> 1000 * 2 ^ 43 - 1" by simp
  then have "real_of_int (rne (p * 2 ^ 43)) \<le> of_int (1000 * 2 ^ 43 - 1)"
    by (simp only: of_int_le_iff)
  then have "real_of_int (rne (p * 2 ^ 43)) / 2 ^ 43 \<le> of_int (1000 * 2 ^ 43 - 1) / 2 ^ 43"
    by (intro divide_right_mono) simp_all
  also have "\<dots> < 1000" by simp
  finally have "real_of_int (rne (p * 2 ^ 43)) / 2 ^ 43 < 1000" .
  moreover have "fl p = real_of_int (rne (p * 2 ^ 43)) / 2 ^ 43"
    using p0(1) by (simp add: fl_quantum q)
  ultimately show ?thesis by (simp add: p_def)
qed

subsection \<open>Arithmetic of the timestamp fields\<close>

text \<open>Every floor the formatter takes is a quotient of the millisecond count \<open>\<lfloor>1000 s\<rfloor>\<close>.\<close>

lemma floor_scaled:
  fixes s :: real
  assumes "0 < k"
  shows "\<lfloor>s / of_int k\<rfloor> = \<lfloor>s * 1000\<rfloor> div (1000 * k)"
proof -
  have "s / of_int k = (s * 1000) / of_int (1000 * k)" by simp
  then have "\<lfloor>s / of_int k\<rfloor> = \<lfloor>(s * 1000) / of_int (1000 * k)\<rfloor>" by simp
  also have "\<dots> = \<lfloor>s * 1000\<rfloor> div (1000 * k)"
    using assms by (intro floor_divide_real_eq_div) simp
  finally show ?thesis .
qed

lemma floor_3600: "\<lfloor>(s::real) / 3600\<rfloor> = \<lfloor>s * 1000\<rfloor> div 3600000"
  using floor_scaled [of 3600 s] by simp

lemma floor_60: "\<lfloor>(s::real) / 60\<rfloor> = \<lfloor>s * 1000\<rfloor> div 60000"
  using floor_scaled [of 60 s] by simp

lemma floor_1: "\<lfloor>(s::real)\<rfloor> = \<lfloor>s * 1000\<rfloor> div 1000"
  using floor_scaled [of 1 s] by simp

lemma hours_field:
  assumes "0 \<le> s" and "s < 2 ^ 53"
  shows "py_int (py_floordiv s 3600) = \<lfloor>s * 1000\<rfloor> div 3600000"
proof -
  have "py_floordiv s (of_int 3600) = of_int \<lfloor>s / of_int 3600\<rfloor>"
    by (rule py_floordiv_exact [OF assms]) simp
  then have "py_floordiv s 3600 = of_int \<lfloor>s / 3600\<rfloor>" by simp
  then show ?thesis by (simp add: py_int_def floor_3600)
qed

lemma minutes_field:
  assumes "0 \<le> s"
  shows "py_int (py_floordiv (py_mod s 3600) 60) = (\<lfloor>s * 1000\<rfloor> div 60000) mod 60"
proof -
  let ?T = "\<lfloor>s * 1000\<rfloor>"
  have m: "py_mod s 3600 = s - 3600 * of_int \<lfloor>s / 3600\<rfloor>"
    using py_mod_exact [OF assms, of 3600] by simp
  have r: "0 \<le> py_mod s 3600" "py_mod s 3600 < 3600"
    using py_mod_range [OF assms, of 3600] by simp_all
  from r(2) have b: "py_mod s 3600 < 2 ^ 53" by simp
  have "py_floordiv (py_mod s 3600) (of_int 60) = of_int \<lfloor>py_mod s 3600 / of_int 60\<rfloor>"
    by (rule py_floordiv_exact [OF r(1) b]) simp
  then have fd: "py_floordiv (py_mod s 3600) 60 = of_int \<lfloor>py_mod s 3600 / 60\<rfloor>" by simp
  have "py_mod s 3600 / 60 = s / 60 - of_int (60 * \<lfloor>s / 3600\<rfloor>)"
    by (simp add: m field_simps)
  then have "\<lfloor>py_mod s 3600 / 60\<rfloor> = \<lfloor>s / 60\<rfloor> - 60 * \<lfloor>s / 3600\<rfloor>"
    by (simp only: floor_diff_of_int)
  also have "\<dots> = ?T div 60000 - 60 * (?T div 3600000)"
    by (simp only: floor_60 floor_3600)
  also have "\<dots> = (?T div 60000) mod 60"
  proof -
    have "?T div 3600000 = (?T div 60000) div 60" by (simp add: div_mult2_eq [symmetric])
    then show ?thesis by (simp only: minus_mult_div_eq_mod)
  qed
  finally have "\<lfloor>py_mod s 3600 / 60\<rfloor> = (?T div 60000) mod 60" .
  then show ?thesis by (simp add: fd py_int_def)
qed

lemma secs_field:
  assumes "0 \<le> s"
  shows "py_int (py_mod s 60) = (\<lfloor>s * 1000\<rfloor> div 1000) mod 60"
proof -
  let ?T = "\<lfloor>s * 1000\<rfloor>"
  have m: "py_mod s 60 = s - of_int (60 * \<lfloor>s / 60\<rfloor>)"
    using py_mod_exact [OF assms, of 60] by simp
  have r: "0 \<le> py_mod s 60" using py_mod_range [OF assms, of 60] by simp
  from m have "\<lfloor>py_mod s 60\<rfloor> = \<lfloor>s\<rfloor> - 60 * \<lfloor>s / 60\<rfloor>"
    by (simp only: floor_diff_of_int)
  also have "\<dots> = ?T div 1000 - 60 * (?T div 60000)"
    using floor_1 [of s] by (simp only: floor_60)
  also have "\<dots> = (?T div 1000) mod 60"
  proof -
    have "?T div 60000 = (?T div 1000) div 60" by (simp add: div_mult2_eq [symmetric])
    then show ?thesis by (simp only: minus_mult_div_eq_mod)
  qed
  finally show ?thesis using r by (simp add: py_int_def)
qed

lemma frac_ms_floor:
  fixes s :: real
  shows "\<lfloor>(s - of_int \<lfloor>s\<rfloor>) * 1000\<rfloor> = \<lfloor>s * 1000\<rfloor> mod 1000"
proof -
  let ?T = "\<lfloor>s * 1000\<rfloor>"
  have "(s - of_int \<lfloor>s\<rfloor>) * 1000 = s * 1000 - of_int (1000 * \<lfloor>s\<rfloor>)"
    by (simp add: algebra_simps)
  then have "\<lfloor>(s - of_int \<lfloor>s\<rfloor>) * 1000\<rfloor> = ?T - 1000 * \<lfloor>s\<rfloor>"
    by (simp only: floor_diff_of_int)
  also have "\<dots> = ?T - 1000 * (?T div 1000)" using floor_1 [of s] by simp
  also have "\<dots> = ?T mod 1000" by (simp only: minus_mult_div_eq_mod)
  finally show ?thesis .
qed

lemma millisecs_field:
  assumes "0 \<le> s"
  defines "p \<equiv> (s - of_int \<lfloor>s\<rfloor>) * 1000"
  shows "py_int (fl (py_mod s 1 * 1000))
           = \<lfloor>s * 1000\<rfloor> mod 1000 + (if fl p = of_int \<lfloor>p\<rfloor> + 1 then 1 else 0)"
proof -
  have m: "py_mod s 1 * 1000 = p"
    using py_mod_exact [OF assms(1), of 1] by (simp add: p_def)
  have frac: "0 \<le> s - of_int \<lfloor>s\<rfloor>" "s - of_int \<lfloor>s\<rfloor> < 1" by linarith+
  have p0: "0 \<le> p" using frac(1) by (simp add: p_def)
  have p1: "p < 1000" using frac(2) by (simp add: p_def)
  then have pb: "p < 2 ^ 53" by simp
  have lo: "of_int \<lfloor>p\<rfloor> \<le> fl p"
    by (rule fl_sandwich(1) [OF _ _ p0 pb, of _ "\<lfloor>p\<rfloor> + 1"]) (simp, linarith)
  have hi: "fl p \<le> of_int (\<lfloor>p\<rfloor> + 1)"
    by (rule fl_sandwich(2) [OF _ _ p0 pb, of "\<lfloor>p\<rfloor>"]) (simp, linarith)
  have nn: "0 \<le> fl p" using lo p0 by (meson le_floor_iff of_int_0_le_iff order_trans zero_le_floor)
  have fl_floor: "\<lfloor>fl p\<rfloor> = \<lfloor>p\<rfloor> + (if fl p = of_int \<lfloor>p\<rfloor> + 1 then 1 else 0)"
  proof (cases "fl p = of_int \<lfloor>p\<rfloor> + 1")
    case True
    then have "fl p = of_int (\<lfloor>p\<rfloor> + 1)" by simp
    then have "\<lfloor>fl p\<rfloor> = \<lfloor>p\<rfloor> + 1" by (simp only: floor_of_int)
    with True show ?thesis by simp
  next
    case False
    with hi have "fl p < of_int \<lfloor>p\<rfloor> + 1" by simp
    with lo have "\<lfloor>fl p\<rfloor> = \<lfloor>p\<rfloor>" by (simp add: floor_unique)
    with False show ?thesis by simp
  qed
  have pT: "\<lfloor>p\<rfloor> = \<lfloor>s * 1000\<rfloor> mod 1000" unfolding p_def by (rule frac_ms_floor)
  have "py_int (fl p) = \<lfloor>fl p\<rfloor>" using nn by (simp add: py_int_def)
  also have "\<dots> = \<lfloor>p\<rfloor> + (if fl p = of_int \<lfloor>p\<rfloor> + 1 then 1 else 0)" by (rule fl_floor)
  finally have "py_int (fl p) = \<lfloor>s * 1000\<rfloor> mod 1000 + (if fl p = of_int \<lfloor>p\<rfloor> + 1 then 1 else 0)"
    by (simp only: pT)
  then show ?thesis by (simp only: m)
qed

lemma millisecs_below_1000:
  assumes "0 \<le> s" and "s < 2 ^ 53" and "fl s = s"
  shows "py_int (fl (py_mod s 1 * 1000)) \<le> 999" and "0 \<le> py_int (fl (py_mod s 1 * 1000))"
proof -
  have m: "py_mod s 1 * 1000 = (s - of_int \<lfloor>s\<rfloor>) * 1000"
    using py_mod_exact [OF assms(1), of 1] by simp
  have frac: "0 \<le> s - of_int \<lfloor>s\<rfloor>" by linarith
  have frac1: "s - of_int \<lfloor>s\<rfloor> < 1" by linarith
  define p where "p = (s - of_int \<lfloor>s\<rfloor>) * 1000"
  have p: "0 \<le> p" "p \<le> 1000" using frac frac1 by (simp_all add: p_def)
  have "fl ((s - of_int \<lfloor>s\<rfloor>) * 1000) < 1000"
    by (rule product_below_1000 [OF frac double_frac_bound [OF assms(3,1,2)]])
  moreover have "of_int 0 \<le> fl p"
    by (rule fl_sandwich(1) [of 0 p 1000]) (use p in simp_all)
  then have "0 \<le> fl ((s - of_int \<lfloor>s\<rfloor>) * 1000)" by (simp add: p_def)
  ultimately show "py_int (fl (py_mod s 1 * 1000)) \<le> 999" and "0 \<le> py_int (fl (py_mod s 1 * 1000))"
    unfolding m by (simp_all add: py_int_def floor_le_iff)
qed

subsection \<open>Zero-padded fields\<close>

lemma str_nat_digit: "n < 10 \<Longrightarrow> str_nat n = [digit_char n]"
  by (simp add: str_nat.simps [of n])

lemma str_nat_step: "10 \<le> n \<Longrightarrow> str_nat n = str_nat (n div 10) @ [digit_char (n mod 10)]"
  by (simp add: str_nat.simps [of n])

lemma digit_char_zero: "digit_char 0 = CHR ''0''"
  by (simp add: digit_char_def)

lemma str_nat_two:
  "n < 100 \<Longrightarrow> zero_pad 2 (str_nat n) = [digit_char (n div 10), digit_char (n mod 10)]"
proof (cases "n < 10")
  case True
  then show ?thesis by (simp add: str_nat_digit zero_pad_def digit_char_zero)
next
  case False
  assume "n < 100"
  with False have "n div 10 < 10" "10 \<le> n" by simp_all
  then show ?thesis by (simp add: str_nat_step str_nat_digit zero_pad_def)
qed

lemma str_nat_three:
  "n < 1000 \<Longrightarrow> zero_pad 3 (str_nat n) =
     [digit_char (n div 100), digit_char (n div 10 mod 10), digit_char (n mod 10)]"
proof (cases "n < 100")
  case True
  have "length (str_nat n) \<le> 2"
    using True by (cases "n < 10") (simp_all add: str_nat_digit str_nat_step)
  then have "zero_pad 3 (str_nat n) = CHR ''0'' # zero_pad 2 (str_nat n)"
    by (simp add: zero_pad_def Suc_diff_le eval_nat_numeral flip: replicate_Suc)
  then show ?thesis using True by (simp add: str_nat_two digit_char_zero)
next
  case False
  assume "n < 1000"
  with False have a: "10 \<le> n" "10 \<le> n div 10" "n div 10 div 10 < 10" by simp_all
  have b: "n div 10 div 10 = n div 100" by (simp add: div_mult2_eq [symmetric])
  show ?thesis
    using a by (simp add: str_nat_step [of n] str_nat_step [of "n div 10"] str_nat_digit zero_pad_def b)
qed

lemma fmt_d_nonneg: "0 \<le> i \<Longrightarrow> fmt_d w i = zero_pad w (str_nat (nat i))"
  by (simp add: fmt_d_def)

subsection \<open>C8: the fields of a subtitle timestamp\<close>

text \<open>
  Claim C8, as amended. Let \<open>seconds\<close> be a double with \<open>0 \<le> seconds < 2^53\<close>, and
  \<open>T = \<lfloor>1000 * seconds\<rfloor>\<close> its value in whole milliseconds, the fraction cut off.
  The formatter prints the hours \<open>T div 3600000\<close> filled with zeros to two digits (exactly
  two digits below one hundred hours), a colon, the two digits of the minutes
  \<open>T div 60000 mod 60\<close>, a colon, the two digits of the seconds \<open>T div 1000 mod 60\<close>, a
  comma, and three digits of milliseconds. The millisecond field is \<^verbatim>\<open>int\<close> of the float
  product \<^verbatim>\<open>(seconds % 1) * 1000\<close>: it is \<open>T mod 1000\<close>, the fractional part cut off to
  whole milliseconds, except when the product, rounded to the nearest double, reaches
  the next whole number; then it is one more. It never exceeds 999. The witness is the
  instance of the specification: the double written \<^verbatim>\<open>125.4567\<close> prints as
  \<^verbatim>\<open>00:02:05,456\<close>.
\<close>

theorem format_timestamp_srt_fields:
  assumes "0 \<le> seconds" and "seconds < 2 ^ 53" and "fl seconds = seconds"
  shows "(let T = nat \<lfloor>seconds * 1000\<rfloor>;
              h = T div 3600000; m = T div 60000 mod 60; sec = T div 1000 mod 60;
              product = (seconds - of_int \<lfloor>seconds\<rfloor>) * 1000;
              ms = T mod 1000 + (if fl product = of_int \<lfloor>product\<rfloor> + 1 then 1 else 0)
          in format_timestamp_srt seconds =
               zero_pad 2 (str_nat h) @ '':'' @ [digit_char (m div 10), digit_char (m mod 10)] @ '':''
                 @ [digit_char (sec div 10), digit_char (sec mod 10)] @ '',''
                 @ [digit_char (ms div 100), digit_char (ms div 10 mod 10), digit_char (ms mod 10)]
             \<and> ms \<le> 999
             \<and> (seconds < 360000 \<longrightarrow>
                  zero_pad 2 (str_nat h) = [digit_char (h div 10), digit_char (h mod 10)]))"
proof -
  define T where "T = \<lfloor>seconds * 1000\<rfloor>"
  define p where "p = (seconds - of_int \<lfloor>seconds\<rfloor>) * 1000"
  define up :: nat where "up = (if fl p = of_int \<lfloor>p\<rfloor> + 1 then 1 else 0)"
  have T0: "0 \<le> T" using assms(1) by (simp add: T_def)
  have h: "nat (T div 3600000) = nat T div 3600000" using T0 by (simp add: nat_div_distrib)
  have m: "nat (T div 60000 mod 60) = nat T div 60000 mod 60"
    using T0 by (simp add: nat_div_distrib nat_mod_distrib pos_imp_zdiv_nonneg_iff)
  have s: "nat (T div 1000 mod 60) = nat T div 1000 mod 60"
    using T0 by (simp add: nat_div_distrib nat_mod_distrib pos_imp_zdiv_nonneg_iff)
  have msi: "py_int (fl (py_mod seconds 1 * 1000)) = T mod 1000 + int up"
    using millisecs_field [OF assms(1)] by (simp add: T_def p_def up_def)
  have ms: "nat (py_int (fl (py_mod seconds 1 * 1000))) = nat T mod 1000 + up"
    unfolding msi using T0 by (simp add: nat_add_distrib nat_mod_distrib)
  have ms999: "nat T mod 1000 + up \<le> 999"
    using millisecs_below_1000(1) [OF assms] unfolding ms [symmetric] by simp
  have ms0: "0 \<le> py_int (fl (py_mod seconds 1 * 1000))"
    by (rule millisecs_below_1000(2) [OF assms])
  have fh: "fmt_d 2 (py_int (py_floordiv seconds 3600)) = zero_pad 2 (str_nat (nat T div 3600000))"
    using T0 by (simp add: hours_field [OF assms(1,2)] fmt_d_nonneg pos_imp_zdiv_nonneg_iff h
        flip: T_def)
  have fm: "fmt_d 2 (py_int (py_floordiv (py_mod seconds 3600) 60))
              = [digit_char (nat T div 60000 mod 60 div 10), digit_char (nat T div 60000 mod 60 mod 10)]"
    by (simp add: minutes_field [OF assms(1)] fmt_d_nonneg str_nat_two m flip: T_def)
  have fs: "fmt_d 2 (py_int (py_mod seconds 60))
              = [digit_char (nat T div 1000 mod 60 div 10), digit_char (nat T div 1000 mod 60 mod 10)]"
    by (simp add: secs_field [OF assms(1)] fmt_d_nonneg str_nat_two s flip: T_def)
  have fms: "fmt_d 3 (py_int (fl (py_mod seconds 1 * 1000)))
              = [digit_char ((nat T mod 1000 + up) div 100),
                 digit_char ((nat T mod 1000 + up) div 10 mod 10),
                 digit_char ((nat T mod 1000 + up) mod 10)]"
  proof -
    have "fmt_d 3 (py_int (fl (py_mod seconds 1 * 1000)))
            = zero_pad 3 (str_nat (nat (py_int (fl (py_mod seconds 1 * 1000)))))"
      using ms0 by (rule fmt_d_nonneg)
    also have "\<dots> = zero_pad 3 (str_nat (nat T mod 1000 + up))" by (simp only: ms)
    also have "\<dots> = [digit_char ((nat T mod 1000 + up) div 100),
                 digit_char ((nat T mod 1000 + up) div 10 mod 10),
                 digit_char ((nat T mod 1000 + up) mod 10)]"
      using ms999 by (intro str_nat_three) simp
    finally show ?thesis .
  qed
  have main: "format_timestamp_srt seconds =
      zero_pad 2 (str_nat (nat T div 3600000)) @ '':''
        @ [digit_char (nat T div 60000 mod 60 div 10), digit_char (nat T div 60000 mod 60 mod 10)] @ '':''
        @ [digit_char (nat T div 1000 mod 60 div 10), digit_char (nat T div 1000 mod 60 mod 10)] @ '',''
        @ [digit_char ((nat T mod 1000 + up) div 100),
           digit_char ((nat T mod 1000 + up) div 10 mod 10),
           digit_char ((nat T mod 1000 + up) mod 10)]"
    unfolding format_timestamp_srt_def Let_def fh fm fs fms by simp
  have small: "zero_pad 2 (str_nat (nat T div 3600000))
       = [digit_char (nat T div 3600000 div 10), digit_char (nat T div 3600000 mod 10)]"
    if "seconds < 360000"
  proof -
    have "seconds * 1000 < 360000000" using that by simp
    then have "T < 360000000" unfolding T_def by (simp add: floor_less_iff)
    then have "nat T div 3600000 < 100" using T0 by simp
    then show ?thesis by (rule str_nat_two)
  qed
  show ?thesis
    unfolding Let_def using main ms999 small by (simp add: T_def p_def up_def)
qed

lemma double_125_4567: "fl (1254567 / 10000) = 8828230427673939 / 2 ^ 46"
  by code_simp

theorem format_timestamp_srt_fields_witness:
  "(0::real) \<le> fl (1254567 / 10000) \<and> fl (1254567 / 10000) < 2 ^ 53
   \<and> fl (fl (1254567 / 10000)) = fl (1254567 / 10000)
   \<and> format_timestamp_srt (fl (1254567 / 10000)) = ''00:02:05,456''"
proof -
  have a: "(0::real) \<le> fl (1254567 / 10000)" unfolding double_125_4567 by simp
  have b: "fl (1254567 / 10000) < 2 ^ 53" unfolding double_125_4567 by simp
  have c: "fl (fl (1254567 / 10000)) = fl (1254567 / 10000)" by code_simp
  have d: "format_timestamp_srt (fl (1254567 / 10000)) = ''00:02:05,456''" by code_simp
  from format_timestamp_srt_fields [OF a b c] a b c d show ?thesis by simp
qed

text \<open>
  The claim as it was written says that the millisecond field is the fractional part
  truncated toward zero, for every time. The double written \<^verbatim>\<open>0.009\<close> is a little less
  than nine thousandths, so its fractional part truncated to milliseconds is 8; the
  product with 1000 rounds to the double 9.0 and the formatter prints \<^verbatim>\<open>,009\<close>.
\<close>

theorem millisecond_rounds_up_counterexample:
  "fl (fl (9 / 1000)) = fl (9 / 1000)
   \<and> fl (9 / 1000) < 9 / 1000
   \<and> \<lfloor>(fl (9 / 1000) - of_int \<lfloor>fl (9 / 1000)\<rfloor>) * 1000\<rfloor> = 8
   \<and> format_timestamp_srt (fl (9 / 1000)) = ''00:00:00,009''"
proof -
  have v: "fl (9 / 1000) = 5188146770730811 / 2 ^ 59" by code_simp
  have a: "fl (fl (9 / 1000)) = fl (9 / 1000)" by code_simp
  have b: "fl (9 / 1000) < 9 / 1000" unfolding v by simp
  have c: "\<lfloor>(fl (9 / 1000) - of_int \<lfloor>fl (9 / 1000)\<rfloor>) * 1000\<rfloor> = 8" unfolding v by simp
  have d: "format_timestamp_srt (fl (9 / 1000)) = ''00:00:00,009''" by code_simp
  from a b c d show ?thesis by simp
qed

subsection \<open>The merge loop\<close>

lemma matching_speakers_filter:
  "matching_speakers tracks a b =
     [speaker. (turn, name, speaker) \<leftarrow> tracks,
        (turn_start turn \<le> a \<and> a \<le> turn_end turn) \<or> (turn_start turn \<le> b \<and> b \<le> turn_end turn)]"
  by (induction tracks a b rule: matching_speakers.induct) auto

lemma py_max_from_ge: "key best \<le> key (py_max_from key best xs)"
proof (induction xs arbitrary: best)
  case Nil
  show ?case by simp
next
  case (Cons x xs)
  show ?case
  proof (cases "key best < key x")
    case True
    with Cons.IH [of x] show ?thesis by simp
  next
    case False
    with Cons.IH [of best] show ?thesis by simp
  qed
qed

lemma py_max_from_first:
  "\<exists>pre post. best # xs = pre @ py_max_from key best xs # post
      \<and> (\<forall>x\<in>set pre. key x < key (py_max_from key best xs))
      \<and> (\<forall>x\<in>set post. key x \<le> key (py_max_from key best xs))"
proof (induction xs arbitrary: best)
  case Nil
  have "[best] = [] @ best # []" by simp
  then show ?case by force
next
  case (Cons x xs)
  show ?case
  proof (cases "key best < key x")
    case True
    let ?r = "py_max_from key x xs"
    from Cons.IH [of x] obtain pre post where
      p: "x # xs = pre @ ?r # post" "\<forall>y\<in>set pre. key y < key ?r" "\<forall>y\<in>set post. key y \<le> key ?r"
      by blast
    have "key x \<le> key ?r" by (rule py_max_from_ge)
    with True have "key best < key ?r" by simp
    with p(2) have "\<forall>y\<in>set (best # pre). key y < key ?r" by simp
    moreover have "best # x # xs = (best # pre) @ ?r # post" using p(1) by simp
    moreover have "py_max_from key best (x # xs) = ?r" using True by simp
    ultimately show ?thesis using p(3) by metis
  next
    case False
    let ?r = "py_max_from key best xs"
    have r: "py_max_from key best (x # xs) = ?r" using False by simp
    from Cons.IH [of best] obtain pre post where
      p: "best # xs = pre @ ?r # post" "\<forall>y\<in>set pre. key y < key ?r" "\<forall>y\<in>set post. key y \<le> key ?r"
      by blast
    have ge: "key best \<le> key ?r" by (rule py_max_from_ge)
    show ?thesis
    proof (cases pre)
      case Nil
      with p(1) have "best # xs = ?r # post" by (simp only: append_Nil)
      then have b: "?r = best" "post = xs" by (metis list.inject)+
      have "best # x # xs = [] @ ?r # (x # xs)" using b by simp
      moreover have "\<forall>y\<in>set (x # xs). key y \<le> key ?r" using False p(3) b by auto
      moreover have "\<forall>y\<in>set []. key y < key ?r" by simp
      ultimately show ?thesis unfolding r by blast
    next
      case (Cons a pre')
      with p(1) have "best # xs = a # (pre' @ ?r # post)" by (simp only: append_Cons)
      then have a: "a = best" "xs = pre' @ ?r # post" by (metis list.inject)+
      have "key best < key ?r" using p(2) Cons a(1) by simp
      then have "\<forall>y\<in>set (best # x # pre'). key y < key ?r"
        using p(2) Cons False by auto
      moreover have "best # x # xs = (best # x # pre') @ ?r # post" using a(2) by simp
      ultimately show ?thesis unfolding r using p(3) by blast
    qed
  qed
qed

lemma py_max_first:
  assumes "xs \<noteq> []"
  shows "\<exists>pre r post. xs = pre @ r # post \<and> py_max key xs = Inr r
      \<and> (\<forall>x\<in>set pre. key x < key r) \<and> (\<forall>x\<in>set post. key x \<le> key r)"
proof -
  from assms obtain b rest where xs: "xs = b # rest" by (cases xs) auto
  have "py_max key xs = Inr (py_max_from key b rest)" by (simp add: py_max_def xs)
  with py_max_from_first [of b rest key] xs show ?thesis by metis
qed

lemma py_max_greatest:
  assumes "py_max key xs = Inr r"
  shows "r \<in> set xs \<and> (\<forall>x\<in>set xs. key x \<le> key r)"
proof -
  from assms have ne: "xs \<noteq> []" by (auto simp: py_max_def)
  from py_max_first [OF ne, of key] obtain pre r' post where
    p: "xs = pre @ r' # post" "py_max key xs = Inr r'"
       "\<forall>x\<in>set pre. key x < key r'" "\<forall>x\<in>set post. key x \<le> key r'" by blast
  with assms have "r' = r" by simp
  with p show ?thesis by (auto simp: less_imp_le)
qed

lemma count_list_zero: "x \<notin> set xs \<Longrightarrow> count_list xs x = 0"
  by (induction xs) auto

lemma assign_speaker_unknown:
  "matching_speakers tracks (seg_start segment) (seg_end segment) = [] \<Longrightarrow>
   assign_speaker iter tracks segment = Inr (segment\<lparr>seg_speaker := Some ''UNKNOWN''\<rparr>)"
  by (simp add: assign_speaker_def)

lemma assign_speaker_first:
  assumes "speakers = matching_speakers tracks (seg_start segment) (seg_end segment)"
    and "speakers \<noteq> []" and "set (iter speakers) = set speakers"
  shows "\<exists>pre l post. iter speakers = pre @ l # post
           \<and> assign_speaker iter tracks segment = Inr (segment\<lparr>seg_speaker := Some l\<rparr>)
           \<and> (\<forall>x\<in>set pre. count_list speakers x < count_list speakers l)
           \<and> (\<forall>x\<in>set post. count_list speakers x \<le> count_list speakers l)"
proof -
  from assms(2,3) have ne: "iter speakers \<noteq> []" by (metis set_empty)
  from py_max_first [OF ne, of "count_list speakers"] obtain pre l post where
    p: "iter speakers = pre @ l # post" "py_max (count_list speakers) (iter speakers) = Inr l"
       "\<forall>x\<in>set pre. count_list speakers x < count_list speakers l"
       "\<forall>x\<in>set post. count_list speakers x \<le> count_list speakers l" by blast
  have "assign_speaker iter tracks segment = Inr (segment\<lparr>seg_speaker := Some l\<rparr>)"
    using assms(1,2) p(2) by (simp add: assign_speaker_def Let_def)
  with p show ?thesis by blast
qed

lemma assign_speaker_most_frequent:
  assumes "speakers = matching_speakers tracks (seg_start segment) (seg_end segment)"
    and "speakers \<noteq> []" and "set (iter speakers) = set speakers"
  shows "\<exists>l. assign_speaker iter tracks segment = Inr (segment\<lparr>seg_speaker := Some l\<rparr>)
           \<and> l \<in> set speakers \<and> (\<forall>l'. count_list speakers l' \<le> count_list speakers l)"
proof -
  from assign_speaker_first [of speakers tracks segment iter] assms obtain pre l post where
    p: "iter speakers = pre @ l # post"
       "assign_speaker iter tracks segment = Inr (segment\<lparr>seg_speaker := Some l\<rparr>)"
       "\<forall>x\<in>set pre. count_list speakers x < count_list speakers l"
       "\<forall>x\<in>set post. count_list speakers x \<le> count_list speakers l" by blast
  have mem: "l \<in> set speakers" using p(1) assms(3) by (metis in_set_conv_decomp)
  have "count_list speakers l' \<le> count_list speakers l" for l'
  proof (cases "l' \<in> set speakers")
    case True
    then have "l' \<in> set (pre @ l # post)" using p(1) assms(3) by simp
    then show ?thesis using p(3,4) by (auto simp: less_imp_le)
  next
    case False
    then show ?thesis by (simp add: count_list_zero)
  qed
  with p(2) mem show ?thesis by blast
qed


subsection \<open>C3: which turns match a segment, and the speaker it gets\<close>

text \<open>
  Claim C3, as amended. For a segment and the tracks of a diarization:
  \<^item> the labels collected for the segment are those of exactly the turns that hold its
    start or its end (\<open>t.start \<le> s.start \<le> t.end\<close> or \<open>t.start \<le> s.end \<le> t.end\<close>), one
    entry per turn, in the order of the tracks;
  \<^item> when no turn matches, the speaker is set to \<^verbatim>\<open>UNKNOWN\<close>;
  \<^item> when some turn matches, the speaker is set to a label that no other label beats in
    the number of matching turns;
  \<^item> when all matching turns carry one label, in particular when a single turn matches,
    the speaker is that label.
  The only thing asked of Python's set is that iterating over \<^verbatim>\<open>set(speakers)\<close> yields
  the elements of \<open>speakers\<close>.
\<close>

theorem assign_speaker_boundary_touch:
  assumes "set (iter (matching_speakers tracks (seg_start segment) (seg_end segment)))
             = set (matching_speakers tracks (seg_start segment) (seg_end segment))"
  shows "(let speakers = matching_speakers tracks (seg_start segment) (seg_end segment);
              assigned = assign_speaker iter tracks segment
          in speakers = [speaker. (turn, name, speaker) \<leftarrow> tracks,
                           (turn_start turn \<le> seg_start segment \<and> seg_start segment \<le> turn_end turn)
                           \<or> (turn_start turn \<le> seg_end segment \<and> seg_end segment \<le> turn_end turn)]
           \<and> (speakers = [] \<longrightarrow> assigned = Inr (segment\<lparr>seg_speaker := Some ''UNKNOWN''\<rparr>))
           \<and> (speakers \<noteq> [] \<longrightarrow>
                 (\<exists>l. assigned = Inr (segment\<lparr>seg_speaker := Some l\<rparr>) \<and> l \<in> set speakers
                      \<and> (\<forall>l'. count_list speakers l' \<le> count_list speakers l)))
           \<and> (\<forall>l. set speakers = {l} \<longrightarrow> assigned = Inr (segment\<lparr>seg_speaker := Some l\<rparr>)))"
proof -
  define sp where "sp = matching_speakers tracks (seg_start segment) (seg_end segment)"
  define assigned where "assigned = assign_speaker iter tracks segment"
  have enum: "set (iter sp) = set sp" using assms by (simp only: sp_def)
  have a: "sp = [speaker. (turn, name, speaker) \<leftarrow> tracks,
                           (turn_start turn \<le> seg_start segment \<and> seg_start segment \<le> turn_end turn)
                           \<or> (turn_start turn \<le> seg_end segment \<and> seg_end segment \<le> turn_end turn)]"
    unfolding sp_def by (rule matching_speakers_filter)
  have b: "assigned = Inr (segment\<lparr>seg_speaker := Some ''UNKNOWN''\<rparr>)" if "sp = []"
    unfolding assigned_def using that unfolding sp_def by (rule assign_speaker_unknown)
  have c: "\<exists>l. assigned = Inr (segment\<lparr>seg_speaker := Some l\<rparr>) \<and> l \<in> set sp
                      \<and> (\<forall>l'. count_list sp l' \<le> count_list sp l)" if "sp \<noteq> []"
    unfolding assigned_def
    by (rule assign_speaker_most_frequent [of sp tracks segment iter, OF sp_def that enum])
  have d: "assigned = Inr (segment\<lparr>seg_speaker := Some l\<rparr>)" if "set sp = {l}" for l
  proof -
    have "sp \<noteq> []"
    proof
      assume "sp = []"
      then have "set sp = {}" by simp
      with that show False by simp
    qed
    from c [OF this] obtain l' where
      l': "assigned = Inr (segment\<lparr>seg_speaker := Some l'\<rparr>)" "l' \<in> set sp"
      by blast
    from l'(2) that have "l' = l" by simp
    with l'(1) show ?thesis by simp
  qed
  have "sp = [speaker. (turn, name, speaker) \<leftarrow> tracks,
                           (turn_start turn \<le> seg_start segment \<and> seg_start segment \<le> turn_end turn)
                           \<or> (turn_start turn \<le> seg_end segment \<and> seg_end segment \<le> turn_end turn)]
           \<and> (sp = [] \<longrightarrow> assigned = Inr (segment\<lparr>seg_speaker := Some ''UNKNOWN''\<rparr>))
           \<and> (sp \<noteq> [] \<longrightarrow>
                 (\<exists>l. assigned = Inr (segment\<lparr>seg_speaker := Some l\<rparr>) \<and> l \<in> set sp
                      \<and> (\<forall>l'. count_list sp l' \<le> count_list sp l)))
           \<and> (\<forall>l. set sp = {l} \<longrightarrow> assigned = Inr (segment\<lparr>seg_speaker := Some l\<rparr>))"
    using a b c d by (intro conjI allI impI)
  then show ?thesis unfolding Let_def sp_def assigned_def .
qed

theorem assign_speaker_boundary_touch_witness:
  "set (remdups (matching_speakers
          [(\<lparr>turn_start = 0, turn_end = 10\<rparr>, ''A'', ''SPEAKER_00''),
           (\<lparr>turn_start = 12, turn_end = 15\<rparr>, ''B'', ''SPEAKER_01'')] 4 8))
     = set (matching_speakers
          [(\<lparr>turn_start = 0, turn_end = 10\<rparr>, ''A'', ''SPEAKER_00''),
           (\<lparr>turn_start = 12, turn_end = 15\<rparr>, ''B'', ''SPEAKER_01'')] 4 8)
   \<and> assign_speaker remdups
          [(\<lparr>turn_start = 0, turn_end = 10\<rparr>, ''A'', ''SPEAKER_00''),
           (\<lparr>turn_start = 12, turn_end = 15\<rparr>, ''B'', ''SPEAKER_01'')]
          \<lparr>seg_start = 4, seg_end = 8, seg_text = ''hello'', seg_speaker = None, seg_other = []\<rparr>
       = Inr \<lparr>seg_start = 4, seg_end = 8, seg_text = ''hello'', seg_speaker = Some ''SPEAKER_00'',
              seg_other = []\<rparr>"
  using assign_speaker_boundary_touch [of remdups
          "[(\<lparr>turn_start = 0, turn_end = 10\<rparr>, ''A'', ''SPEAKER_00''),
           (\<lparr>turn_start = 12, turn_end = 15\<rparr>, ''B'', ''SPEAKER_01'')]"
          "\<lparr>seg_start = 4, seg_end = 8, seg_text = ''hello'', seg_speaker = None, seg_other = []\<rparr>"]
  by (simp add: Let_def)

text \<open>
  The claim as it was written also says that a segment lying inside exactly one turn gets
  the label of that turn. It does not: below, the segment from 4 to 8 lies inside the
  turn of \<^verbatim>\<open>SPEAKER_00\<close> from 0 to 10 and inside no other turn, but its start lies in
  one turn of \<^verbatim>\<open>SPEAKER_01\<close> and its end in another, so \<^verbatim>\<open>SPEAKER_01\<close> has two
  matching turns against one and is assigned.
\<close>

theorem contained_in_one_turn_counterexample:
  "within_turn \<lparr>seg_start = 4, seg_end = 8, seg_text = ''hello'', seg_speaker = None, seg_other = []\<rparr>
      \<lparr>turn_start = 0, turn_end = 10\<rparr>
   \<and> \<not> within_turn \<lparr>seg_start = 4, seg_end = 8, seg_text = ''hello'', seg_speaker = None, seg_other = []\<rparr>
      \<lparr>turn_start = 3, turn_end = 5\<rparr>
   \<and> \<not> within_turn \<lparr>seg_start = 4, seg_end = 8, seg_text = ''hello'', seg_speaker = None, seg_other = []\<rparr>
      \<lparr>turn_start = 7, turn_end = 9\<rparr>
   \<and> assign_speaker remdups
          [(\<lparr>turn_start = 0, turn_end = 10\<rparr>, ''A'', ''SPEAKER_00''),
           (\<lparr>turn_start = 3, turn_end = 5\<rparr>, ''B'', ''SPEAKER_01''),
           (\<lparr>turn_start = 7, turn_end = 9\<rparr>, ''C'', ''SPEAKER_01'')]
          \<lparr>seg_start = 4, seg_end = 8, seg_text = ''hello'', seg_speaker = None, seg_other = []\<rparr>
       = Inr \<lparr>seg_start = 4, seg_end = 8, seg_text = ''hello'', seg_speaker = Some ''SPEAKER_01'',
              seg_other = []\<rparr>"
  by (simp add: within_turn_def assign_speaker_def py_max_def)

subsection \<open>C4: ties between speaker labels\<close>

text \<open>
  Claim C4, as amended. When some turn matches, the speaker assigned is the first label,
  in the order in which Python iterates over \<^verbatim>\<open>set(speakers)\<close>, that has the highest
  number of matching turns: every label before it in that order has strictly fewer, no
  label after it has more. A tie is therefore broken by the iteration order of the set,
  not by the order in which the turns were collected.
\<close>

theorem tie_break_follows_set_order:
  assumes "speakers = matching_speakers tracks (seg_start segment) (seg_end segment)"
    and "speakers \<noteq> []"
    and "set (iter speakers) = set speakers"
  shows "\<exists>before l after.
           iter speakers = before @ l # after
           \<and> assign_speaker iter tracks segment = Inr (segment\<lparr>seg_speaker := Some l\<rparr>)
           \<and> l \<in> set speakers
           \<and> (\<forall>x\<in>set before. count_list speakers x < count_list speakers l)
           \<and> (\<forall>x\<in>set after. count_list speakers x \<le> count_list speakers l)"
proof -
  from assign_speaker_first [of speakers tracks segment iter] assms obtain pre l post where
    p: "iter speakers = pre @ l # post"
       "assign_speaker iter tracks segment = Inr (segment\<lparr>seg_speaker := Some l\<rparr>)"
       "\<forall>x\<in>set pre. count_list speakers x < count_list speakers l"
       "\<forall>x\<in>set post. count_list speakers x \<le> count_list speakers l" by blast
  have "l \<in> set (iter speakers)" unfolding p(1) by simp
  then have "l \<in> set speakers" using assms(3) by simp
  with p show ?thesis by blast
qed

theorem tie_break_follows_set_order_witness:
  "assign_speaker (rev \<circ> remdups)
          [(\<lparr>turn_start = 0, turn_end = 5\<rparr>, ''A'', ''SPEAKER_00''),
           (\<lparr>turn_start = 5, turn_end = 10\<rparr>, ''B'', ''SPEAKER_01'')]
          \<lparr>seg_start = 4, seg_end = 8, seg_text = ''hello'', seg_speaker = None, seg_other = []\<rparr>
       = Inr \<lparr>seg_start = 4, seg_end = 8, seg_text = ''hello'', seg_speaker = Some ''SPEAKER_01'',
              seg_other = []\<rparr>"
proof -
  let ?tracks = "[(\<lparr>turn_start = 0, turn_end = 5\<rparr>, ''A'', ''SPEAKER_00''),
           (\<lparr>turn_start = 5, turn_end = 10\<rparr>, ''B'', ''SPEAKER_01'')]"
  let ?seg = "\<lparr>seg_start = 4, seg_end = 8, seg_text = ''hello'', seg_speaker = None, seg_other = []\<rparr>"
  let ?sp = "[''SPEAKER_00'', ''SPEAKER_01'']"
  have a: "?sp = matching_speakers ?tracks (seg_start ?seg) (seg_end ?seg)" by simp
  have b: "?sp \<noteq> []" by simp
  have c: "set ((rev \<circ> remdups) ?sp) = set ?sp" by (simp only: comp_apply set_rev set_remdups)
  from tie_break_follows_set_order [of ?sp ?tracks ?seg "rev \<circ> remdups"] a b c
  obtain before l after where
    p: "(rev \<circ> remdups) ?sp = before @ l # after"
       "assign_speaker (rev \<circ> remdups) ?tracks ?seg = Inr (?seg\<lparr>seg_speaker := Some l\<rparr>)"
       "\<forall>x\<in>set before. count_list ?sp x < count_list ?sp l"
    by blast
  have "[''SPEAKER_01'', ''SPEAKER_00''] = before @ l # after" using p(1) by simp
  then have "before = [] \<and> l = ''SPEAKER_01'' \<or> before = [''SPEAKER_01''] \<and> l = ''SPEAKER_00''"
    by (auto simp: Cons_eq_append_conv)
  then have "l = ''SPEAKER_01''" using p(3) by auto
  with p(2) show ?thesis by simp
qed

text \<open>
  The claim as it was written says that a tie goes to the label met first among the
  collected turns. The set of two labels may be iterated in either order; when
  \<^verbatim>\<open>SPEAKER_01\<close> comes first, the tie between the two labels goes to it although
  \<^verbatim>\<open>SPEAKER_00\<close> was collected first.
\<close>

theorem first_encountered_counterexample:
  "matching_speakers
          [(\<lparr>turn_start = 0, turn_end = 5\<rparr>, ''A'', ''SPEAKER_00''),
           (\<lparr>turn_start = 5, turn_end = 10\<rparr>, ''B'', ''SPEAKER_01'')] 4 8
       = [''SPEAKER_00'', ''SPEAKER_01'']
   \<and> assign_speaker (rev \<circ> remdups)
          [(\<lparr>turn_start = 0, turn_end = 5\<rparr>, ''A'', ''SPEAKER_00''),
           (\<lparr>turn_start = 5, turn_end = 10\<rparr>, ''B'', ''SPEAKER_01'')]
          \<lparr>seg_start = 4, seg_end = 8, seg_text = ''hello'', seg_speaker = None, seg_other = []\<rparr>
       = Inr \<lparr>seg_start = 4, seg_end = 8, seg_text = ''hello'', seg_speaker = Some ''SPEAKER_01'',
              seg_other = []\<rparr>"
  by (simp add: assign_speaker_def py_max_def)

subsection \<open>C2: the fast path of preprocessing\<close>

text \<open>
  Claim C2 says that the audio returned by \<^verbatim>\<open>preprocess_audio\<close> is always mono at
  16000 Hz. The fast path tests the sample rate only: a stereo file at 16000 Hz, with
  librosa installed, is returned as it is, two channels and all, while both converters
  are asked for one channel (\<^verbatim>\<open>mono=True\<close>, \<^verbatim>\<open>-ac 1\<close>).
\<close>

theorem fast_path_keeps_stereo:
  "preprocess_audio
     (offline_env\<lparr>LIBROSA_AVAILABLE := True,
        sf_read := (\<lambda>p. Inr (\<lparr>channels = 2, samples = [0, 0, 0, 0]\<rparr>, 16000))\<rparr>)
     \<lparr>files = {''talk.wav''}, temp_files = {}\<rparr> ''talk.wav''
   = (Inr (''talk.wav'', \<lparr>channels = 2, samples = [0, 0, 0, 0]\<rparr>, 16000), \<lparr>files = {''talk.wav''}, temp_files = {}\<rparr>)"
  by (simp add: preprocess_audio_def fast_path_def offline_env_def py_lower_def path_suffix_def
      path_name_def has_suffix_def lower_char_def)

subsection \<open>C5: which converter runs\<close>

lemma fast_path_subprocess_run [simp]:
  "fast_path (env\<lparr>subprocess_run := run\<rparr>) p = fast_path env p"
  by (simp add: fast_path_def)

lemma fast_path_librosa_load [simp]:
  "fast_path (env\<lparr>librosa_load := load\<rparr>) p = fast_path env p"
  by (simp add: fast_path_def)

text \<open>
  Claim C5, as amended. For a file that exists and does not take the fast path:
  \<^item> when librosa is installed, ffmpeg is never run (the result is the same whatever
    \<^verbatim>\<open>subprocess.run\<close> would do), and when \<^verbatim>\<open>librosa.load\<close> raises \<open>e\<close> the call raises
    \<^verbatim>\<open>RuntimeError\<close> with the message \<^verbatim>\<open>Audio preprocessing failed: \<close> followed by the
    message of \<open>e\<close> alone, leaving the file system as it was;
  \<^item> when librosa is not installed, \<^verbatim>\<open>librosa.load\<close> is never called, ffmpeg is the
    converter, and a non-zero return code raises \<^verbatim>\<open>RuntimeError\<close> with the message
    \<^verbatim>\<open>Audio preprocessing failed: FFmpeg conversion failed: \<close> followed by ffmpeg's
    standard error, after the temporary file has been removed.
  So ffmpeg stands in for a missing librosa, not for a failed one, and a failure carries
  the diagnostic of the one converter that ran.
\<close>

theorem ffmpeg_only_without_librosa:
  assumes "audio_path \<in> files w" and "fast_path env audio_path = None"
  shows "(LIBROSA_AVAILABLE env \<longrightarrow>
            (\<forall>run. preprocess_audio (env\<lparr>subprocess_run := run\<rparr>) w audio_path
                     = preprocess_audio env w audio_path)
          \<and> (\<forall>e. librosa_load env audio_path = Inl e \<longrightarrow>
                 preprocess_audio env w audio_path
                   = (Inl (RuntimeError (''Audio preprocessing failed: '' @ str_exc e)), w)))
       \<and> (\<not> LIBROSA_AVAILABLE env \<longrightarrow>
            (\<forall>load. preprocess_audio (env\<lparr>librosa_load := load\<rparr>) w audio_path
                     = preprocess_audio env w audio_path)
          \<and> (\<forall>temp_wav code stderr.
                 named_temporary_file env = Inr temp_wav
                 \<and> subprocess_run env [''ffmpeg'', ''-i'', audio_path, ''-ar'', ''16000'', ''-ac'', ''1'',
                                        ''-f'', ''wav'', ''-y'', temp_wav] = Inr (code, stderr)
                 \<and> code \<noteq> 0 \<longrightarrow>
                 preprocess_audio env w audio_path
                   = (Inl (RuntimeError (''Audio preprocessing failed: FFmpeg conversion failed: '' @ stderr)),
                      unlink temp_wav (create_temp temp_wav w))))"
proof (intro conjI impI allI)
  fix run
  assume "LIBROSA_AVAILABLE env"
  then show "preprocess_audio (env\<lparr>subprocess_run := run\<rparr>) w audio_path = preprocess_audio env w audio_path"
    using assms by (simp add: preprocess_audio_def convert_with_librosa_def cong: sum.case_cong option.case_cong)
next
  fix e
  assume "LIBROSA_AVAILABLE env" "librosa_load env audio_path = Inl e"
  then show "preprocess_audio env w audio_path
                   = (Inl (RuntimeError (''Audio preprocessing failed: '' @ str_exc e)), w)"
    using assms by (simp add: preprocess_audio_def convert_with_librosa_def preprocessing_failed_def)
next
  fix load
  assume "\<not> LIBROSA_AVAILABLE env"
  then show "preprocess_audio (env\<lparr>librosa_load := load\<rparr>) w audio_path = preprocess_audio env w audio_path"
    using assms by (simp add: preprocess_audio_def convert_with_ffmpeg_def Let_def split: sum.splits prod.splits)
next
  fix temp_wav code stderr
  assume "\<not> LIBROSA_AVAILABLE env"
    and "named_temporary_file env = Inr temp_wav
                 \<and> subprocess_run env [''ffmpeg'', ''-i'', audio_path, ''-ar'', ''16000'', ''-ac'', ''1'',
                                        ''-f'', ''wav'', ''-y'', temp_wav] = Inr (code, stderr)
                 \<and> code \<noteq> 0"
  then show "preprocess_audio env w audio_path
                   = (Inl (RuntimeError (''Audio preprocessing failed: FFmpeg conversion failed: '' @ stderr)),
                      unlink temp_wav (create_temp temp_wav w))"
    using assms
    by (simp add: preprocess_audio_def convert_with_ffmpeg_def preprocessing_failed_def Let_def)
       (simp add: create_temp_def)
qed

theorem ffmpeg_only_without_librosa_witness:
  "''talk.mp3'' \<in> files \<lparr>files = {''talk.mp3''}, temp_files = {}\<rparr>
   \<and> fast_path (offline_env\<lparr>LIBROSA_AVAILABLE := True\<rparr>) ''talk.mp3'' = None
   \<and> preprocess_audio (offline_env\<lparr>LIBROSA_AVAILABLE := True\<rparr>) \<lparr>files = {''talk.mp3''}, temp_files = {}\<rparr> ''talk.mp3''
       = (Inl (RuntimeError ''Audio preprocessing failed: unknown format''), \<lparr>files = {''talk.mp3''}, temp_files = {}\<rparr>)"
proof -
  have a: "''talk.mp3'' \<in> files \<lparr>files = {''talk.mp3''}, temp_files = {}\<rparr>" by simp
  have b: "fast_path (offline_env\<lparr>LIBROSA_AVAILABLE := True\<rparr>) ''talk.mp3'' = None"
    by (simp add: fast_path_def py_lower_def path_suffix_def path_name_def has_suffix_def lower_char_def)
  have c: "librosa_load (offline_env\<lparr>LIBROSA_AVAILABLE := True\<rparr>) ''talk.mp3''
             = Inl (LibraryError ''unknown format'')"
    by (simp add: offline_env_def)
  from ffmpeg_only_without_librosa [OF a b] c
  have "preprocess_audio (offline_env\<lparr>LIBROSA_AVAILABLE := True\<rparr>) \<lparr>files = {''talk.mp3''}, temp_files = {}\<rparr> ''talk.mp3''
       = (Inl (RuntimeError (''Audio preprocessing failed: '' @ str_exc (LibraryError ''unknown format''))),
          \<lparr>files = {''talk.mp3''}, temp_files = {}\<rparr>)"
    by simp
  with a b show ?thesis by simp
qed

text \<open>
  The claim as it was written says that ffmpeg is tried when librosa's conversion fails.
  Below librosa is installed and cannot decode the file, ffmpeg would convert it (the
  second equation), and \<^verbatim>\<open>preprocess_audio\<close> raises with librosa's message only.
\<close>

theorem no_ffmpeg_fallback_counterexample:
  "preprocess_audio
     (offline_env\<lparr>LIBROSA_AVAILABLE := True, subprocess_run := (\<lambda>cmd. Inr (0, [])),
        sf_read := (\<lambda>p. Inr (\<lparr>channels = 1, samples = [0, 0]\<rparr>, 16000))\<rparr>)
     \<lparr>files = {''talk.mp3''}, temp_files = {}\<rparr> ''talk.mp3''
     = (Inl (RuntimeError ''Audio preprocessing failed: unknown format''), \<lparr>files = {''talk.mp3''}, temp_files = {}\<rparr>)
   \<and> convert_with_ffmpeg
     (offline_env\<lparr>LIBROSA_AVAILABLE := True, subprocess_run := (\<lambda>cmd. Inr (0, [])),
        sf_read := (\<lambda>p. Inr (\<lparr>channels = 1, samples = [0, 0]\<rparr>, 16000))\<rparr>)
     \<lparr>files = {''talk.mp3''}, temp_files = {}\<rparr> ''talk.mp3''
     = (Inr (''/tmp/tmpk3x9.wav'', \<lparr>channels = 1, samples = [0, 0]\<rparr>, 16000),
        \<lparr>files = {''/tmp/tmpk3x9.wav'', ''talk.mp3''}, temp_files = {''/tmp/tmpk3x9.wav''}\<rparr>)"
  by (simp add: preprocess_audio_def fast_path_def convert_with_librosa_def convert_with_ffmpeg_def
      preprocessing_failed_def create_temp_def offline_env_def py_lower_def path_suffix_def path_name_def
      has_suffix_def lower_char_def)

subsection \<open>C9: the merge changes nothing but the speaker\<close>

lemma assign_speaker_frame:
  assumes "assign_speaker iter tracks segment = Inr segment'"
  shows "segment' = segment\<lparr>seg_speaker := seg_speaker segment'\<rparr>"
  using assms
  by (auto simp: assign_speaker_def Let_def split: if_splits sum.splits)

lemma merge_segments_frame:
  "list_all2 (\<lambda>segment segment'. segment' = segment\<lparr>seg_speaker := seg_speaker segment'\<rparr>)
     segments (fst (merge_segments iter tracks segments))"
proof (induction segments)
  case Nil
  show ?case by simp
next
  case (Cons segment segments)
  show ?case
  proof (cases "assign_speaker iter tracks segment")
    case (Inl e)
    have "list_all2 (\<lambda>segment segment'. segment' = segment\<lparr>seg_speaker := seg_speaker segment'\<rparr>)
            (segment # segments) (segment # segments)"
      by (simp add: list_all2_same)
    with Inl show ?thesis by simp
  next
    case (Inr segment')
    obtain rest e where m: "merge_segments iter tracks segments = (rest, e)"
      by (cases "merge_segments iter tracks segments")
    have "fst (merge_segments iter tracks (segment # segments)) = segment' # rest"
      using Inr m by simp
    moreover have "list_all2 (\<lambda>segment segment'. segment' = segment\<lparr>seg_speaker := seg_speaker segment'\<rparr>)
                     segments rest"
      using Cons.IH m by simp
    ultimately show ?thesis using assign_speaker_frame [OF Inr] by simp
  qed
qed

lemma add_speaker_diarization_cases:
  assumes "add_speaker_diarization self env w audio_path transcription_result = (labelled, self')"
  shows "labelled = transcription_result
         \<or> (\<exists>segments diarization.
               res_segments transcription_result = Some segments
               \<and> labelled = transcription_result
                    \<lparr>res_segments := Some (fst (merge_segments (set_iter env) diarization segments))\<rparr>)"
  using assms unfolding add_speaker_diarization_def
  by (simp split: prod.splits bool.splits sum.splits option.splits) blast+

lemma same_but_speaker:
  fixes segment segment' :: segment
  assumes "segment' = segment\<lparr>seg_speaker := seg_speaker segment'\<rparr>"
  shows "seg_start segment' = seg_start segment \<and> seg_end segment' = seg_end segment
         \<and> seg_text segment' = seg_text segment \<and> seg_other segment' = seg_other segment"
proof -
  have "seg_start (segment\<lparr>seg_speaker := x\<rparr>) = seg_start segment
        \<and> seg_end (segment\<lparr>seg_speaker := x\<rparr>) = seg_end segment
        \<and> seg_text (segment\<lparr>seg_speaker := x\<rparr>) = seg_text segment
        \<and> seg_other (segment\<lparr>seg_speaker := x\<rparr>) = seg_other segment" for x
    by simp
  from this [of "seg_speaker segment'"] assms show ?thesis by metis
qed


text \<open>
  Claim C9. Whatever the diarization engine does (not installed, fails to load, raises,
  or returns its turns), the result that \<^verbatim>\<open>add_speaker_diarization\<close> hands back has the
  same \<^verbatim>\<open>text\<close> and \<^verbatim>\<open>language\<close>, and its segments are the segments it was given, in
  the same number and order, each with the same \<^verbatim>\<open>start\<close>, \<^verbatim>\<open>end\<close>, \<^verbatim>\<open>text\<close> and other
  keys: a segment differs from the original in its speaker at most.
\<close>

theorem diarization_changes_only_speaker:
  "(case add_speaker_diarization self env w audio_path transcription_result of
      (labelled, self') \<Rightarrow>
        res_text labelled = res_text transcription_result
        \<and> res_language labelled = res_language transcription_result
        \<and> rel_option
             (list_all2 (\<lambda>segment segment'.
                seg_start segment' = seg_start segment \<and> seg_end segment' = seg_end segment
                \<and> seg_text segment' = seg_text segment \<and> seg_other segment' = seg_other segment
                \<and> segment' = segment\<lparr>seg_speaker := seg_speaker segment'\<rparr>))
             (res_segments transcription_result) (res_segments labelled))"
proof -
  let ?same = "\<lambda>segment segment'.
                seg_start segment' = seg_start segment \<and> seg_end segment' = seg_end segment
                \<and> seg_text segment' = seg_text segment \<and> seg_other segment' = seg_other segment
                \<and> segment' = segment\<lparr>seg_speaker := seg_speaker segment'\<rparr>"
  obtain labelled self' where
    run: "add_speaker_diarization self env w audio_path transcription_result = (labelled, self')"
    by (cases "add_speaker_diarization self env w audio_path transcription_result")
  have same_refl: "?same segment segment" for segment :: segment by simp
  have goal: "res_text labelled = res_text transcription_result
        \<and> res_language labelled = res_language transcription_result
        \<and> rel_option (list_all2 ?same) (res_segments transcription_result) (res_segments labelled)"
    using add_speaker_diarization_cases [OF run]
  proof
    assume "labelled = transcription_result"
    moreover have "rel_option (list_all2 ?same) x x" for x
    proof (cases x)
      case None
      then show ?thesis by simp
    next
      case (Some segments)
      have "list_all2 ?same segments segments"
        by (rule list_all2_refl) simp
      with Some show ?thesis by simp
    qed
    ultimately show ?thesis by simp
  next
    assume "\<exists>segments diarization.
               res_segments transcription_result = Some segments
               \<and> labelled = transcription_result
                    \<lparr>res_segments := Some (fst (merge_segments (set_iter env) diarization segments))\<rparr>"
    then obtain segments diarization where
      s: "res_segments transcription_result = Some segments"
         "labelled = transcription_result
                    \<lparr>res_segments := Some (fst (merge_segments (set_iter env) diarization segments))\<rparr>"
      by blast
    have imp: "?same a b" if "b = a\<lparr>seg_speaker := seg_speaker b\<rparr>" for a b :: segment
      using same_but_speaker [OF that] that by blast
    have "list_all2 ?same segments (fst (merge_segments (set_iter env) diarization segments))"
      by (rule list_all2_mono [OF merge_segments_frame imp])
    with s show ?thesis by simp
  qed
  show ?thesis unfolding run using goal by simp
qed

theorem diarization_changes_only_speaker_witness:
  "add_speaker_diarization example_transcriber
     (offline_env\<lparr>DIARIZATION_AVAILABLE := True,
        from_pretrained := (\<lambda>name token. Inr (Some 1)),
        run_pipeline := (\<lambda>pipeline p. Inr [(\<lparr>turn_start = 0, turn_end = 5\<rparr>, ''A'', ''SPEAKER_00'')])\<rparr>)
     \<lparr>files = {''talk.wav''}, temp_files = {}\<rparr> ''talk.wav'' example_result
   = (example_result
        \<lparr>res_segments := Some [\<lparr>seg_start = 0, seg_end = 3, seg_text = ''test'',
                                  seg_speaker = Some ''SPEAKER_00'', seg_other = []\<rparr>]\<rparr>,
      example_transcriber\<lparr>diarization_pipeline := Some 1\<rparr>)"
  using diarization_changes_only_speaker [where self = example_transcriber
     and env = "offline_env\<lparr>DIARIZATION_AVAILABLE := True,
        from_pretrained := (\<lambda>name token. Inr (Some 1)),
        run_pipeline := (\<lambda>pipeline p. Inr [(\<lparr>turn_start = 0, turn_end = 5\<rparr>, ''A'', ''SPEAKER_00'')])\<rparr>"
     and w = "\<lparr>files = {''talk.wav''}, temp_files = {}\<rparr>" and audio_path = "''talk.wav''"
     and transcription_result = example_result]
  by (simp add: add_speaker_diarization_def load_diarization_model_def offline_env_def
      example_transcriber_def example_result_def assign_speaker_def py_max_def)

subsection \<open>Running the examples\<close>

lemmas run_defs =
  transcribe_file_def preprocess_audio_def fast_path_def convert_with_librosa_def create_temp_def
  transcribe_body_def try_engines_def transcribe_with_mlx_def transcribe_with_whisperx_def
  load_whisperx_model_def truthy_def truthy_result_def truthy_str_def format_output_def
  output_path_of_def path_stem_def path_name_def has_suffix_def path_parent_def path_join_def
  path_suffix_def py_lower_def lower_char_def unlink_def create_def failure_def
  offline_env_def converting_env_def example_transcriber_def example_result_def Let_def

subsection \<open>C10: the two shapes of the outcome\<close>

lemma transcribe_body_returns:
  assumes "transcribe_body self env w audio_path output_format include_speakers
             processed_audio_path audio_data sample_rate = (Inr returned, self', w')"
  shows "\<exists>output_path engine labelled.
           returned = [(''success'', PyBool True), (''output_path'', PyStr output_path),
                       (''engine'', PyStr engine), (''result'', PyResult labelled)]"
  using assms unfolding transcribe_body_def
  by (simp add: Let_def split: prod.splits option.splits sum.splits if_splits) blast+

text \<open>
  Claim C10. Whatever happens, the dict that \<^verbatim>\<open>transcribe_file\<close> returns is one of two:
  the keys \<^verbatim>\<open>success\<close>, \<^verbatim>\<open>output_path\<close>, \<^verbatim>\<open>engine\<close> and \<^verbatim>\<open>result\<close>, with \<^verbatim>\<open>success\<close>
  true and no key \<^verbatim>\<open>error\<close>; or the keys \<^verbatim>\<open>success\<close> and \<^verbatim>\<open>error\<close>, with \<^verbatim>\<open>success\<close>
  false and none of the other three. The witness runs one call of each kind.
\<close>

theorem outcome_shape:
  "(case transcribe_file self env w audio_path output_format include_speakers of
      (outcome, self', w') \<Rightarrow>
        (\<exists>output_path engine labelled.
           outcome = [(''success'', PyBool True), (''output_path'', PyStr output_path),
                      (''engine'', PyStr engine), (''result'', PyResult labelled)])
        \<or> (\<exists>message. outcome = [(''success'', PyBool False), (''error'', PyStr message)]))"
proof (cases "preprocess_audio env w audio_path")
  case (Pair pre w1)
  show ?thesis
  proof (cases pre)
    case (Inl e)
    with Pair show ?thesis by (simp add: transcribe_file_def failure_def)
  next
    case (Inr triple)
    obtain processed_audio_path audio_data sample_rate where
      t: "triple = (processed_audio_path, audio_data, sample_rate)" by (cases triple)
    obtain r self' w2 where
      b: "transcribe_body self env w1 audio_path output_format include_speakers
            processed_audio_path audio_data sample_rate = (r, self', w2)"
      by (cases "transcribe_body self env w1 audio_path output_format include_speakers
            processed_audio_path audio_data sample_rate")
    show ?thesis
    proof (cases r)
      case (Inl e)
      with Pair Inr t b show ?thesis by (simp add: transcribe_file_def failure_def)
    next
      case r: (Inr returned)
      from transcribe_body_returns [OF b [unfolded r]] obtain output_path engine labelled where
        "returned = [(''success'', PyBool True), (''output_path'', PyStr output_path),
                       (''engine'', PyStr engine), (''result'', PyResult labelled)]" by blast
      with Pair Inr t b r show ?thesis by (simp add: transcribe_file_def)
    qed
  qed
qed

theorem outcome_shape_witness:
  "fst (transcribe_file example_transcriber
          (converting_env\<lparr>MLX_AVAILABLE := True, mlx_transcribe := (\<lambda>p repo. Inr example_result)\<rparr>)
          \<lparr>files = {''/data/talk.mp3''}, temp_files = {}\<rparr> ''/data/talk.mp3'' ''txt'' False)
     = [(''success'', PyBool True), (''output_path'', PyStr ''/data/talk_transcript.txt''),
        (''engine'', PyStr ''MLX Whisper''), (''result'', PyResult example_result)]
   \<and> fst (transcribe_file example_transcriber converting_env
          \<lparr>files = {''/data/talk.mp3''}, temp_files = {}\<rparr> ''/data/missing.mp3'' ''txt'' False)
     = [(''success'', PyBool False), (''error'', PyStr ''Audio file not found: /data/missing.mp3'')]"
  using outcome_shape [where self = example_transcriber
          and env = "converting_env\<lparr>MLX_AVAILABLE := True, mlx_transcribe := (\<lambda>p repo. Inr example_result)\<rparr>"
          and w = "\<lparr>files = {''/data/talk.mp3''}, temp_files = {}\<rparr>" and audio_path = "''/data/talk.mp3''"
          and output_format = "''txt''" and include_speakers = False]
  by (simp add: run_defs)

subsection \<open>C7: the temporary file is gone when the call returns\<close>

lemma preprocessing_failed_fst:
  "fst (preprocessing_failed w temp e) = Inl (RuntimeError (''Audio preprocessing failed: '' @ str_exc e))"
  by (simp add: preprocessing_failed_def)







subsection \<open>C1: every engine fails\<close>

text \<open>
  Claim C1, as amended. Once preprocessing has succeeded, if every engine that is
  installed raises (MLX Whisper, then WhisperX, which also raises when its model cannot
  be loaded), or none is installed, \<^verbatim>\<open>transcribe_file\<close> returns the failure dict whose
  \<^verbatim>\<open>error\<close> is the fixed text \<^verbatim>\<open>All transcription engines failed\<close>, whatever the
  engines' own messages were; it raises nothing. The engines' reasons go to the log only.
\<close>

theorem all_engines_failed_message:
  assumes pre: "preprocess_audio env w audio_path = (Inr (processed_audio_path, audio_data, sample_rate), w1)"
    and mlx: "MLX_AVAILABLE env \<longrightarrow> (\<exists>e. transcribe_with_mlx self env processed_audio_path = Inl e)"
    and whisperx: "WHISPERX_AVAILABLE env \<longrightarrow>
           (\<exists>e. fst (transcribe_with_whisperx self env processed_audio_path audio_data sample_rate) = Inl e)"
  shows "fst (transcribe_file self env w audio_path output_format include_speakers)
           = [(''success'', PyBool False), (''error'', PyStr ''All transcription engines failed'')]"
proof -
  have first: "(if MLX_AVAILABLE env
                   then (case transcribe_with_mlx self env processed_audio_path of
                           Inr r \<Rightarrow> (Some r, Some ''MLX Whisper'')
                         | Inl e \<Rightarrow> (None, None))
                   else (None, None)) = (None, None)"
    using mlx by auto
  have "fst (fst (try_engines self env processed_audio_path audio_data sample_rate)) = None"
    unfolding try_engines_def first Let_def
    using whisperx by (auto simp: truthy_def split: prod.splits sum.splits)
  then obtain engine self1 where
    "try_engines self env processed_audio_path audio_data sample_rate = ((None, engine), self1)"
    by (cases "try_engines self env processed_audio_path audio_data sample_rate") auto
  then have "transcribe_body self env w1 audio_path output_format include_speakers
               processed_audio_path audio_data sample_rate
             = (Inl (RuntimeError ''All transcription engines failed''), self1, w1)"
    by (simp add: transcribe_body_def truthy_def)
  with pre show ?thesis by (simp add: transcribe_file_def failure_def)
qed

theorem all_engines_failed_message_witness:
  "transcribe_with_mlx example_transcriber
       (converting_env\<lparr>MLX_AVAILABLE := True, WHISPERX_AVAILABLE := True\<rparr>) ''/tmp/tmpk3x9.wav''
     = Inl (LibraryError ''mlx failed'')
   \<and> fst (transcribe_with_whisperx example_transcriber
       (converting_env\<lparr>MLX_AVAILABLE := True, WHISPERX_AVAILABLE := True\<rparr>) ''/tmp/tmpk3x9.wav''
       \<lparr>channels = 1, samples = [0, 0]\<rparr> 16000)
     = Inl (RuntimeError ''Failed to load WhisperX model'')
   \<and> fst (transcribe_file example_transcriber
       (converting_env\<lparr>MLX_AVAILABLE := True, WHISPERX_AVAILABLE := True\<rparr>)
       \<lparr>files = {''/data/talk.mp3''}, temp_files = {}\<rparr> ''/data/talk.mp3'' ''txt'' False)
     = [(''success'', PyBool False), (''error'', PyStr ''All transcription engines failed'')]"
proof -
  let ?env = "converting_env\<lparr>MLX_AVAILABLE := True, WHISPERX_AVAILABLE := True\<rparr>"
  let ?w = "\<lparr>files = {''/data/talk.mp3''}, temp_files = {}\<rparr>"
  have pre: "preprocess_audio ?env ?w ''/data/talk.mp3''
               = (Inr (''/tmp/tmpk3x9.wav'', \<lparr>channels = 1, samples = [0, 0]\<rparr>, 16000),
                  create_temp ''/tmp/tmpk3x9.wav'' ?w)"
    by (simp add: run_defs)
  have mlx: "transcribe_with_mlx example_transcriber ?env ''/tmp/tmpk3x9.wav''
               = Inl (LibraryError ''mlx failed'')"
    by (simp add: run_defs)
  have whisperx: "fst (transcribe_with_whisperx example_transcriber ?env ''/tmp/tmpk3x9.wav''
                    \<lparr>channels = 1, samples = [0, 0]\<rparr> 16000)
                  = Inl (RuntimeError ''Failed to load WhisperX model'')"
    by (simp add: run_defs)
  have "fst (transcribe_file example_transcriber ?env ?w ''/data/talk.mp3'' ''txt'' False)
     = [(''success'', PyBool False), (''error'', PyStr ''All transcription engines failed'')]"
    by (rule all_engines_failed_message [OF pre]) (use mlx whisperx in blast)+
  with mlx whisperx show ?thesis by simp
qed

text \<open>
  The claim as it was written says that the error detail gathers the failure reason of
  every engine. Below MLX Whisper fails with \<^verbatim>\<open>mlx failed\<close> and WhisperX with
  \<^verbatim>\<open>out of memory\<close>; the error returned contains neither.
\<close>

theorem no_aggregated_error_counterexample:
  "transcribe_with_mlx example_transcriber
       (converting_env\<lparr>MLX_AVAILABLE := True, WHISPERX_AVAILABLE := True,
          whisperx_load_model := (\<lambda>size. Inr 7),
          whisperx_transcribe := (\<lambda>m data. Inl (LibraryError ''out of memory''))\<rparr>)
       ''/tmp/tmpk3x9.wav''
     = Inl (LibraryError ''mlx failed'')
   \<and> fst (transcribe_with_whisperx example_transcriber
       (converting_env\<lparr>MLX_AVAILABLE := True, WHISPERX_AVAILABLE := True,
          whisperx_load_model := (\<lambda>size. Inr 7),
          whisperx_transcribe := (\<lambda>m data. Inl (LibraryError ''out of memory''))\<rparr>)
       ''/tmp/tmpk3x9.wav'' \<lparr>channels = 1, samples = [0, 0]\<rparr> 16000)
     = Inl (LibraryError ''out of memory'')
   \<and> fst (transcribe_file example_transcriber
       (converting_env\<lparr>MLX_AVAILABLE := True, WHISPERX_AVAILABLE := True,
          whisperx_load_model := (\<lambda>size. Inr 7),
          whisperx_transcribe := (\<lambda>m data. Inl (LibraryError ''out of memory''))\<rparr>)
       \<lparr>files = {''/data/talk.mp3''}, temp_files = {}\<rparr> ''/data/talk.mp3'' ''txt'' False)
     = [(''success'', PyBool False), (''error'', PyStr ''All transcription engines failed'')]
   \<and> \<not> contains ''mlx failed'' ''All transcription engines failed''
   \<and> \<not> contains ''out of memory'' ''All transcription engines failed''"
  by (simp add: run_defs)

subsection \<open>C6: the fallback engine succeeds\<close>

text \<open>
  Claim C6, as amended. Preprocessing has succeeded, MLX Whisper is installed and its
  attempt raises, WhisperX is installed and returns a result that is not empty. If then
  the output is rendered and written without an exception (diarization, when asked for,
  cannot fail the call), \<^verbatim>\<open>transcribe_file\<close> returns the success dict with
  \<^verbatim>\<open>engine\<close> equal to \<^verbatim>\<open>WhisperX\<close>, the path written to, and the result of WhisperX
  (with speakers when asked for). WhisperX is the last engine, so none is tried after it.
\<close>

theorem fallback_engine_used:
  assumes pre: "preprocess_audio env w audio_path = (Inr (processed_audio_path, audio_data, sample_rate), w1)"
    and mlx: "MLX_AVAILABLE env" "transcribe_with_mlx self env processed_audio_path = Inl e"
    and whisperx: "WHISPERX_AVAILABLE env"
        "transcribe_with_whisperx self env processed_audio_path audio_data sample_rate = (Inr found, self1)"
        "truthy_result found"
    and diarize: "(if include_speakers
                   then add_speaker_diarization self1 env w1 processed_audio_path found
                   else (found, self1)) = (labelled, self2)"
    and rendered: "format_output env labelled output_format include_speakers = Inr formatted_result"
    and saved: "open_write env (output_path_of self2 audio_path output_format) formatted_result = None"
  shows "fst (transcribe_file self env w audio_path output_format include_speakers)
           = [(''success'', PyBool True),
              (''output_path'', PyStr (output_path_of self2 audio_path output_format)),
              (''engine'', PyStr ''WhisperX''),
              (''result'', PyResult labelled)]"
proof -
  have "try_engines self env processed_audio_path audio_data sample_rate
          = ((Some found, Some ''WhisperX''), self1)"
    using mlx whisperx by (simp add: try_engines_def truthy_def)
  then have "fst (transcribe_body self env w1 audio_path output_format include_speakers
               processed_audio_path audio_data sample_rate)
             = Inr [(''success'', PyBool True),
              (''output_path'', PyStr (output_path_of self2 audio_path output_format)),
              (''engine'', PyStr ''WhisperX''),
              (''result'', PyResult labelled)]"
    using whisperx(3) diarize rendered saved
    by (simp add: transcribe_body_def truthy_def Let_def)
  with pre show ?thesis
    by (auto simp: transcribe_file_def split: prod.splits)
qed

theorem fallback_engine_used_witness:
  "transcribe_with_mlx example_transcriber
       (converting_env\<lparr>MLX_AVAILABLE := True, WHISPERX_AVAILABLE := True,
          whisperx_load_model := (\<lambda>size. Inr 7),
          whisperx_transcribe := (\<lambda>m data. Inr example_result)\<rparr>)
       ''/tmp/tmpk3x9.wav''
     = Inl (LibraryError ''mlx failed'')
   \<and> fst (transcribe_file example_transcriber
       (converting_env\<lparr>MLX_AVAILABLE := True, WHISPERX_AVAILABLE := True,
          whisperx_load_model := (\<lambda>size. Inr 7),
          whisperx_transcribe := (\<lambda>m data. Inr example_result)\<rparr>)
       \<lparr>files = {''/data/talk.mp3''}, temp_files = {}\<rparr> ''/data/talk.mp3'' ''txt'' False)
     = [(''success'', PyBool True), (''output_path'', PyStr ''/data/talk_transcript.txt''),
        (''engine'', PyStr ''WhisperX''), (''result'', PyResult example_result)]"
proof -
  let ?env = "converting_env\<lparr>MLX_AVAILABLE := True, WHISPERX_AVAILABLE := True,
          whisperx_load_model := (\<lambda>size. Inr 7),
          whisperx_transcribe := (\<lambda>m data. Inr example_result)\<rparr>"
  let ?w = "\<lparr>files = {''/data/talk.mp3''}, temp_files = {}\<rparr>"
  let ?self1 = "example_transcriber\<lparr>whisperx_model := Some 7\<rparr>"
  have pre: "preprocess_audio ?env ?w ''/data/talk.mp3''
               = (Inr (''/tmp/tmpk3x9.wav'', \<lparr>channels = 1, samples = [0, 0]\<rparr>, 16000),
                  create_temp ''/tmp/tmpk3x9.wav'' ?w)"
    by (simp add: run_defs)
  have mlx: "MLX_AVAILABLE ?env"
       "transcribe_with_mlx example_transcriber ?env ''/tmp/tmpk3x9.wav'' = Inl (LibraryError ''mlx failed'')"
    by (simp_all add: run_defs)
  have whisperx: "WHISPERX_AVAILABLE ?env"
       "transcribe_with_whisperx example_transcriber ?env ''/tmp/tmpk3x9.wav''
          \<lparr>channels = 1, samples = [0, 0]\<rparr> 16000 = (Inr example_result, ?self1)"
       "truthy_result example_result"
    by (simp_all add: run_defs)
  have diarize: "(if False
                   then add_speaker_diarization ?self1 ?env (create_temp ''/tmp/tmpk3x9.wav'' ?w)
                          ''/tmp/tmpk3x9.wav'' example_result
                   else (example_result, ?self1)) = (example_result, ?self1)"
    by simp
  have rendered: "format_output ?env example_result ''txt'' False = Inr ''test''"
    by (simp add: run_defs)
  have saved: "open_write ?env (output_path_of ?self1 ''/data/talk.mp3'' ''txt'') ''test'' = None"
    by (simp add: run_defs)
  have "fst (transcribe_file example_transcriber ?env ?w ''/data/talk.mp3'' ''txt'' False)
           = [(''success'', PyBool True),
              (''output_path'', PyStr (output_path_of ?self1 ''/data/talk.mp3'' ''txt'')),
              (''engine'', PyStr ''WhisperX''),
              (''result'', PyResult example_result)]"
    by (rule fallback_engine_used [OF pre mlx whisperx diarize rendered saved])
  moreover have "output_path_of ?self1 ''/data/talk.mp3'' ''txt'' = ''/data/talk_transcript.txt''"
    by (simp add: run_defs)
  ultimately show ?thesis using mlx(2) by simp
qed

text \<open>
  The claim as it was written promises \<^verbatim>\<open>success == true\<close> whenever the fallback
  engine succeeds. Below MLX Whisper raises, WhisperX returns its result, and the output
  file cannot be written: the call returns the failure dict.
\<close>

theorem fallback_write_failure_counterexample:
  "transcribe_with_mlx example_transcriber
       (converting_env\<lparr>MLX_AVAILABLE := True, WHISPERX_AVAILABLE := True,
          whisperx_load_model := (\<lambda>size. Inr 7),
          whisperx_transcribe := (\<lambda>m data. Inr example_result),
          open_write := (\<lambda>p s. Some (LibraryError ''Permission denied''))\<rparr>)
       ''/tmp/tmpk3x9.wav''
     = Inl (LibraryError ''mlx failed'')
   \<and> fst (transcribe_with_whisperx example_transcriber
       (converting_env\<lparr>MLX_AVAILABLE := True, WHISPERX_AVAILABLE := True,
          whisperx_load_model := (\<lambda>size. Inr 7),
          whisperx_transcribe := (\<lambda>m data. Inr example_result),
          open_write := (\<lambda>p s. Some (LibraryError ''Permission denied''))\<rparr>)
       ''/tmp/tmpk3x9.wav'' \<lparr>channels = 1, samples = [0, 0]\<rparr> 16000)
     = Inr example_result
   \<and> fst (transcribe_file example_transcriber
       (converting_env\<lparr>MLX_AVAILABLE := True, WHISPERX_AVAILABLE := True,
          whisperx_load_model := (\<lambda>size. Inr 7),
          whisperx_transcribe := (\<lambda>m data. Inr example_result),
          open_write := (\<lambda>p s. Some (LibraryError ''Permission denied''))\<rparr>)
       \<lparr>files = {''/data/talk.mp3''}, temp_files = {}\<rparr> ''/data/talk.mp3'' ''txt'' False)
     = [(''success'', PyBool False), (''error'', PyStr ''Permission denied'')]"
  by (simp add: run_defs)

end
